theory Spec2Isabelle
  imports Complex_Main "HOL-Library.AList"
begin

section \<open>Expense ledger: data model\<close>

text \<open>
  \<^verbatim>\<open>expenses/models.py\<close>: an \<^verbatim>\<open>Expense\<close> row.  The owner is the primary key of a user,
  a \<^verbatim>\<open>DecimalField\<close> amount is a rational number, a \<^verbatim>\<open>DateField\<close> is the day number of
  the date (\<^verbatim>\<open>date.toordinal()\<close>), so that \<^verbatim>\<open>today - timedelta(days=7)\<close> is
  \<open>today - 7\<close>.  The nullable \<^verbatim>\<open>description\<close> is an optional string.  Strings are lists
  of characters; a character outside ASCII is written as its UTF-8 bytes.
\<close>

type_synonym user_id = nat

record expense =
  pk :: nat
  user :: user_id
  title :: string
  amount :: rat
  category :: string
  description :: "string option"
  date :: int
  created_at :: nat
  updated_at :: nat

text \<open>\<^verbatim>\<open>Expense.CATEGORY_CHOICES\<close>: pairs of a stored code and a human-readable label.\<close>

definition CATEGORY_CHOICES :: "(string \<times> string) list" where
  "CATEGORY_CHOICES =
     [(''GROCERIES'', ''Comestibles''),
      (''LEISURE'', ''Entretenimiento''),
      (''ELECTRONICS'', ''Electr'' @ [CHR 0xC3, CHR 0xB3] @ ''nicos''),
      (''UTILITIES'', ''Servicios P'' @ [CHR 0xC3, CHR 0xBA] @ ''blicos''),
      (''CLOTHING'', ''Ropa''),
      (''HEALTH'', ''Salud''),
      (''OTHERS'', ''Otros'')]"

section \<open>Ownership-scoped queryset\<close>

text \<open>
  The table \<^verbatim>\<open>Expense.objects.all()\<close> is a list of rows.
  \<^verbatim>\<open>ExpenseViewSet.get_queryset\<close> is \<^verbatim>\<open>Expense.objects.filter(user=self.request.user)\<close>.
\<close>

definition get_queryset :: "expense list \<Rightarrow> user_id \<Rightarrow> expense list" where
  "get_queryset objects request_user = filter (\<lambda>e. user e = request_user) objects"

section \<open>Aggregation: the \<^verbatim>\<open>stats\<close> action\<close>

text \<open>
  The ORM aggregates over a queryset: \<^verbatim>\<open>Count('id')\<close> is the number of rows;
  \<^verbatim>\<open>Sum('amount')\<close> and \<^verbatim>\<open>Avg('amount')\<close> are \<^verbatim>\<open>None\<close> on no rows (SQL NULL).
  The sum of a decimal column is exact.  The average is the quotient as the database
  computes it, a decimal of finite precision that depends on the database (31/3 comes
  back as 10.3333333333333 from one and with more digits from another): it is the
  function \<open>database_avg\<close> of the sum and the number of rows, a parameter of the model.
\<close>

definition Count_id :: "expense list \<Rightarrow> nat" where
  "Count_id qs = length qs"

definition Sum_amount :: "expense list \<Rightarrow> rat option" where
  "Sum_amount qs = (if qs = [] then None else Some (sum_list (map amount qs)))"

definition Avg_amount :: "(rat \<Rightarrow> nat \<Rightarrow> rat) \<Rightarrow> expense list \<Rightarrow> rat option" where
  "Avg_amount database_avg qs =
     (if qs = [] then None else Some (database_avg (sum_list (map amount qs)) (length qs)))"

text \<open>Python's \<^verbatim>\<open>x or 0\<close> on an optional number: \<^verbatim>\<open>None\<close> and zero are falsy.\<close>

definition or_0 :: "rat option \<Rightarrow> rat" where
  "or_0 x = (case x of None \<Rightarrow> 0 | Some v \<Rightarrow> (if v = 0 then 0 else v))"

text \<open>
  The dictionary handed to \<^verbatim>\<open>ExpenseStatsSerializer\<close>, and the one it returns.  \<^verbatim>\<open>by_category\<close> is a Python
  dict: an association list in insertion order, written with \<^const>\<open>AList.update\<close>
  (a key assigned twice keeps one entry).
\<close>

record stats_dict =
  total_expenses :: nat
  total_amount :: rat
  average_amount :: rat
  by_category :: "(string \<times> rat) list"

text \<open>The body of the loop \<^verbatim>\<open>for choice in Expense.CATEGORY_CHOICES\<close>.\<close>

definition category_step ::
  "expense list \<Rightarrow> string \<times> string \<Rightarrow> (string \<times> rat) list \<Rightarrow> (string \<times> rat) list" where
  "category_step expenses choice by_cat =
     (let category_code = fst choice;
          category_name = snd choice;
          category_total = Sum_amount (filter (\<lambda>e. category e = category_code) expenses)
      in AList.update category_name (or_0 category_total) by_cat)"

text \<open>
  The body of the \<^verbatim>\<open>stats\<close> action up to the dictionary \<^verbatim>\<open>stats\<close> that it hands to the
  serializer.
\<close>

definition stats :: "(rat \<Rightarrow> nat \<Rightarrow> rat) \<Rightarrow> expense list \<Rightarrow> user_id \<Rightarrow> stats_dict" where
  "stats database_avg objects request_user =
     (let expenses = get_queryset objects request_user;
          n = Count_id expenses;
          total = Sum_amount expenses;
          average = Avg_amount database_avg expenses;
          total' = (case total of None \<Rightarrow> 0 | Some v \<Rightarrow> v);
          average' = (case average of None \<Rightarrow> 0 | Some v \<Rightarrow> v)
      in \<lparr> total_expenses = n,
           total_amount = total',
           average_amount = average',
           by_category = fold (category_step expenses) CATEGORY_CHOICES [] \<rparr>)"

text \<open>
  \<^verbatim>\<open>ExpenseStatsSerializer\<close> declares \<^verbatim>\<open>total_amount\<close> and \<^verbatim>\<open>average_amount\<close> as
  \<^verbatim>\<open>DecimalField(max_digits=10, decimal_places=2)\<close>.  On output such a field quantizes
  its value to two decimal places, rounding half to even, in a decimal context of ten
  digits: a result of more than ten digits raises \<^verbatim>\<open>decimal.InvalidOperation\<close>.
  \<^verbatim>\<open>total_expenses\<close> is an integer field and \<^verbatim>\<open>by_category\<close> a \<^verbatim>\<open>DictField\<close>
  without a child field: both are returned as they are.
\<close>

definition round_half_even :: "rat \<Rightarrow> int" where
  "round_half_even y =
     (let f = \<lfloor>y\<rfloor>; d = y - of_int f
      in if d < 1 / 2 then f
         else if 1 / 2 < d then f + 1
         else if even f then f else f + 1)"

definition quantize :: "rat \<Rightarrow> rat option" where
  "quantize v =
     (let c = round_half_even (v * 100)
      in if \<bar>c\<bar> < 10 ^ 10 then Some (of_int c / 100) else None)"

definition ExpenseStatsSerializer :: "stats_dict \<Rightarrow> stats_dict option" where
  "ExpenseStatsSerializer s =
     (case quantize (total_amount s) of
        None \<Rightarrow> None
      | Some t \<Rightarrow>
          (case quantize (average_amount s) of
             None \<Rightarrow> None
           | Some a \<Rightarrow> Some (s \<lparr> total_amount := t, average_amount := a \<rparr>)))"

section \<open>Query filters\<close>

text \<open>
  \<^verbatim>\<open>expenses/filters.py\<close>.  The query parameters of a request after the form of the
  filter set has accepted and cleaned them; a parameter that is absent or empty is
  \<open>None\<close>.  A request with a parameter that the form refuses does not get this far:
  see \<open>clean_query\<close> below.
\<close>

record filter_params =
  category_param :: "string option"
  start_date_param :: "int option"
  end_date_param :: "int option"
  min_amount_param :: "rat option"
  max_amount_param :: "rat option"
  period_param :: "string option"

text \<open>
  \<^verbatim>\<open>ExpenseFilter.filter_by_period\<close>.  The first argument is
  \<^verbatim>\<open>timezone.now().date()\<close>, the date of the request.
\<close>

definition filter_by_period :: "int \<Rightarrow> expense list \<Rightarrow> string \<Rightarrow> string \<Rightarrow> expense list" where
  "filter_by_period today queryset name val =
     (if val = ''week'' then
        (let start_date = today - 7 in filter (\<lambda>e. start_date \<le> date e) queryset)
      else if val = ''month'' then
        (let start_date = today - 30 in filter (\<lambda>e. start_date \<le> date e) queryset)
      else if val = ''3months'' then
        (let start_date = today - 90 in filter (\<lambda>e. start_date \<le> date e) queryset)
      else queryset)"

text \<open>
  One declared filter of the filter set: a parameter that is absent leaves the queryset
  as it is.  The filter set also skips an empty string without calling the method.
\<close>

definition apply_filter :: "'v option \<Rightarrow> ('v \<Rightarrow> expense list \<Rightarrow> expense list) \<Rightarrow> expense list \<Rightarrow> expense list" where
  "apply_filter param f queryset = (case param of None \<Rightarrow> queryset | Some v \<Rightarrow> f v queryset)"

definition filter_queryset :: "int \<Rightarrow> filter_params \<Rightarrow> expense list \<Rightarrow> expense list" where
  "filter_queryset today params queryset =
     (let q1 = apply_filter (category_param params) (\<lambda>v. filter (\<lambda>e. category e = v)) queryset;
          q2 = apply_filter (start_date_param params) (\<lambda>v. filter (\<lambda>e. v \<le> date e)) q1;
          q3 = apply_filter (end_date_param params) (\<lambda>v. filter (\<lambda>e. date e \<le> v)) q2;
          q4 = apply_filter (min_amount_param params) (\<lambda>v. filter (\<lambda>e. v \<le> amount e)) q3;
          q5 = apply_filter (max_amount_param params) (\<lambda>v. filter (\<lambda>e. amount e \<le> v)) q4
      in apply_filter (period_param params)
           (\<lambda>v q. if v = [] then q else filter_by_period today q ''period'' v) q5)"

definition no_params :: filter_params where
  "no_params = \<lparr> category_param = None, start_date_param = None, end_date_param = None,
                  min_amount_param = None, max_amount_param = None, period_param = None \<rparr>"

section \<open>Permissions\<close>

text \<open>\<^verbatim>\<open>IsOwner.has_object_permission\<close>: \<^verbatim>\<open>obj.user == request.user\<close>.\<close>

definition has_object_permission :: "user_id \<Rightarrow> expense \<Rightarrow> bool" where
  "has_object_permission request_user obj = (user obj = request_user)"

section \<open>Expense serializer\<close>

text \<open>
  The body of a request, key by key; an absent key is \<open>None\<close>.  \<^verbatim>\<open>description\<close> may
  also be sent as JSON \<^verbatim>\<open>null\<close> (\<open>Some None\<close>).  \<^verbatim>\<open>data_user\<close> is a client-supplied
  \<^verbatim>\<open>user\<close> key.
\<close>

record expense_data =
  data_user :: "user_id option"
  data_title :: "string option"
  data_amount :: "rat option"
  data_category :: "string option"
  data_description :: "string option option"
  data_date :: "int option"

text \<open>The validated data: a dict that holds a key for each field that was submitted.\<close>

record attrs =
  attrs_title :: "string option"
  attrs_amount :: "rat option"
  attrs_category :: "string option"
  attrs_description :: "string option option"
  attrs_date :: "int option"

type_synonym errors = "(string \<times> string) list"

text \<open>
  The validation that the serializer fields bring with them (length and digit limits,
  the minimum amount, trimming of text) belongs to the framework: each is a function
  from the submitted value to an error message or the value handed on.
\<close>

record field_checks =
  title_field :: "string \<Rightarrow> string + string"
  amount_field :: "rat \<Rightarrow> string + rat"
  description_field :: "string option \<Rightarrow> string + string option"

definition validate_amount :: "rat \<Rightarrow> string + rat" where
  "validate_amount val =
     (if val \<le> 0 then Inl ''El monto debe ser mayor a cero.'' else Inr val)"

definition validate_date :: "int \<Rightarrow> int \<Rightarrow> string + int" where
  "validate_date today val =
     (if val > today then Inl ''La fecha del gasto no puede ser futura.'' else Inr val)"

definition description_required :: string where
  "description_required =
     ''Los gastos mayores a $1,000,000 requieren descripci'' @ [CHR 0xC3, CHR 0xB3] @ ''n.''"

text \<open>
  \<^verbatim>\<open>ExpenseSerializer.validate\<close>.  \<^verbatim>\<open>attrs.get\<close> is \<^verbatim>\<open>None\<close> for a missing key;
  \<^verbatim>\<open>amount and ...\<close> and \<^verbatim>\<open>not description\<close> follow Python's truth values.
\<close>

definition validate :: "attrs \<Rightarrow> errors + attrs" where
  "validate a =
     (let amount' = attrs_amount a;
          description' = (case attrs_description a of None \<Rightarrow> None | Some d \<Rightarrow> d)
      in if (case amount' of None \<Rightarrow> False | Some v \<Rightarrow> v \<noteq> 0 \<and> v > 1000000)
            \<and> (case description' of None \<Rightarrow> True | Some s \<Rightarrow> s = [])
         then Inl [(''description'', description_required)]
         else Inr a)"

text \<open>
  One writable field of the serializer.  A missing key is skipped on a partial update,
  is an error on a required field and is skipped otherwise; a submitted value goes
  through the field and then through the serializer's \<^verbatim>\<open>validate_<name>\<close> method.
\<close>

definition run_field ::
  "bool \<Rightarrow> bool \<Rightarrow> ('v \<Rightarrow> string + 'w) \<Rightarrow> ('w \<Rightarrow> string + 'w) \<Rightarrow> 'v option \<Rightarrow> (string + 'w) option" where
  "run_field partial required field validate_method v =
     (case v of
        None \<Rightarrow> (if partial then None
                 else if required then Some (Inl ''This field is required.'')
                 else None)
      | Some x \<Rightarrow>
          (case field x of
             Inl msg \<Rightarrow> Some (Inl msg)
           | Inr w \<Rightarrow> Some (validate_method w)))"

definition category_field :: "string \<Rightarrow> string + string" where
  "category_field v =
     (if v \<in> set (map fst CATEGORY_CHOICES) then Inr v else Inl ''Not a valid choice.'')"

definition field_error :: "string \<Rightarrow> (string + 'w) option \<Rightarrow> errors" where
  "field_error name r = (case r of Some (Inl msg) \<Rightarrow> [(name, msg)] | _ \<Rightarrow> [])"

definition field_value :: "(string + 'w) option \<Rightarrow> 'w option" where
  "field_value r = (case r of Some (Inr w) \<Rightarrow> Some w | _ \<Rightarrow> None)"

text \<open>
  The serializer's \<^verbatim>\<open>to_internal_value\<close>: the writable fields in the order of
  \<^verbatim>\<open>Meta.fields\<close>.  \<^verbatim>\<open>user\<close> is in \<^verbatim>\<open>read_only_fields\<close> and is not read from
  the body.
\<close>

definition to_internal_value :: "field_checks \<Rightarrow> bool \<Rightarrow> int \<Rightarrow> expense_data \<Rightarrow> errors + attrs" where
  "to_internal_value fc partial today d =
     (let r_title = run_field partial True (title_field fc) Inr (data_title d);
          r_amount = run_field partial True (amount_field fc) validate_amount (data_amount d);
          r_category = run_field partial True category_field Inr (data_category d);
          r_description = run_field partial False (description_field fc) Inr (data_description d);
          r_date = run_field partial True Inr (validate_date today) (data_date d);
          errs = field_error ''title'' r_title @ field_error ''amount'' r_amount
               @ field_error ''category'' r_category @ field_error ''description'' r_description
               @ field_error ''date'' r_date
      in if errs \<noteq> [] then Inl errs
         else Inr \<lparr> attrs_title = field_value r_title,
                    attrs_amount = field_value r_amount,
                    attrs_category = field_value r_category,
                    attrs_description = field_value r_description,
                    attrs_date = field_value r_date \<rparr>)"

text \<open>\<^verbatim>\<open>is_valid\<close>: the fields first, then the object-level \<^verbatim>\<open>validate\<close>.\<close>

definition run_validation :: "field_checks \<Rightarrow> bool \<Rightarrow> int \<Rightarrow> expense_data \<Rightarrow> errors + attrs" where
  "run_validation fc partial today d =
     (case to_internal_value fc partial today d of
        Inl errs \<Rightarrow> Inl errs
      | Inr a \<Rightarrow> validate a)"

section \<open>Expense views\<close>

datatype 'a response =
    HTTP_200_OK 'a
  | HTTP_201_CREATED 'a
  | HTTP_204_NO_CONTENT
  | HTTP_205_RESET_CONTENT
  | HTTP_400_BAD_REQUEST errors
  | HTTP_401_UNAUTHORIZED
  | HTTP_403_FORBIDDEN
  | HTTP_404_NOT_FOUND
  | HTTP_500_SERVER_ERROR

text \<open>
  \<^verbatim>\<open>serializer.save(user=...)\<close> on a new object: the keyword argument is merged over the
  validated data and the row is inserted.  A column without a value takes the default of
  the model field; \<^verbatim>\<open>amount\<close> and \<^verbatim>\<open>date\<close> have none and the database refuses the row.
\<close>

definition save_new :: "nat \<Rightarrow> nat \<Rightarrow> attrs \<Rightarrow> user_id \<Rightarrow> expense option" where
  "save_new new_pk now a user' =
     (case (attrs_amount a, attrs_date a) of
        (Some amount', Some date') \<Rightarrow>
          Some \<lparr> pk = new_pk,
                 user = user',
                 title = (case attrs_title a of None \<Rightarrow> [] | Some t \<Rightarrow> t),
                 amount = amount',
                 category = (case attrs_category a of None \<Rightarrow> [] | Some c \<Rightarrow> c),
                 description = (case attrs_description a of None \<Rightarrow> None | Some d' \<Rightarrow> d'),
                 date = date',
                 created_at = now,
                 updated_at = now \<rparr>
      | _ \<Rightarrow> None)"

text \<open>
  \<^verbatim>\<open>perform_create\<close> inside the framework's \<^verbatim>\<open>create\<close>: the request must be
  authenticated, the body valid; the owner is \<^verbatim>\<open>self.request.user\<close>.  \<open>new_pk\<close> is
  the key the database assigns, \<open>now\<close> the time of the request.
\<close>

definition create ::
  "field_checks \<Rightarrow> nat \<Rightarrow> nat \<Rightarrow> int \<Rightarrow> expense list \<Rightarrow> user_id option \<Rightarrow> expense_data
     \<Rightarrow> expense response \<times> expense list" where
  "create fc new_pk now today objects request_user d =
     (case request_user of
        None \<Rightarrow> (HTTP_401_UNAUTHORIZED, objects)
      | Some u \<Rightarrow>
          (case run_validation fc False today d of
             Inl errs \<Rightarrow> (HTTP_400_BAD_REQUEST errs, objects)
           | Inr a \<Rightarrow>
               (case save_new new_pk now a u of
                  None \<Rightarrow> (HTTP_500_SERVER_ERROR, objects)
                | Some obj \<Rightarrow> (HTTP_201_CREATED obj, objects @ [obj]))))"

text \<open>
  The rows that the \<^verbatim>\<open>list\<close> action selects for accepted filter parameters: the
  caller's queryset, filtered by the filter set.  The order of the rows in the answer
  and their division into pages are not part of the model.
\<close>

definition list_expenses ::
  "int \<Rightarrow> expense list \<Rightarrow> user_id option \<Rightarrow> filter_params \<Rightarrow> (expense list) response" where
  "list_expenses today objects request_user params =
     (case request_user of
        None \<Rightarrow> HTTP_401_UNAUTHORIZED
      | Some u \<Rightarrow> HTTP_200_OK (filter_queryset today params (get_queryset objects u)))"

text \<open>
  The query string of a request as the form of the filter set reads it.
  \<^verbatim>\<open>category\<close> is the text sent; \<^verbatim>\<open>ChoiceFilter(choices=Expense.CATEGORY_CHOICES)\<close>
  accepts the seven codes.  A date or number parameter is what the form field makes of
  the text: a value, or a refusal.  \<^verbatim>\<open>period\<close> is a text parameter, which the form
  accepts as it is.  \<^verbatim>\<open>search\<close> is the parameter of the search backend.  A parameter
  that is absent or empty is \<open>None\<close>.
\<close>

datatype 'a form_value = Accepted 'a | Refused

record query_params =
  category_query :: "string option"
  start_date_query :: "int form_value option"
  end_date_query :: "int form_value option"
  min_amount_query :: "rat form_value option"
  max_amount_query :: "rat form_value option"
  period_query :: "string option"
  search_query :: "string option"

definition clean_choice :: "string option \<Rightarrow> string + string option" where
  "clean_choice q =
     (case q of
        None \<Rightarrow> Inr None
      | Some s \<Rightarrow>
          (if s = [] then Inr None
           else if s \<in> set (map fst CATEGORY_CHOICES) then Inr (Some s)
           else Inl (''Select a valid choice. '' @ s
                     @ '' is not one of the available choices.'')))"

definition clean_value :: "string \<Rightarrow> 'a form_value option \<Rightarrow> string + 'a option" where
  "clean_value msg q =
     (case q of
        None \<Rightarrow> Inr None
      | Some Refused \<Rightarrow> Inl msg
      | Some (Accepted v) \<Rightarrow> Inr (Some v))"

definition cleaned :: "string + 'a option \<Rightarrow> 'a option" where
  "cleaned r = (case r of Inl msg \<Rightarrow> None | Inr v \<Rightarrow> v)"

text \<open>
  The filter backend validates the form before it filters: with a refused parameter it
  raises a validation error, which the framework answers with 400.
\<close>

definition clean_query :: "query_params \<Rightarrow> errors + filter_params" where
  "clean_query q =
     (let c = clean_choice (category_query q);
          sd = clean_value ''Enter a valid date.'' (start_date_query q);
          ed = clean_value ''Enter a valid date.'' (end_date_query q);
          mn = clean_value ''Enter a number.'' (min_amount_query q);
          mx = clean_value ''Enter a number.'' (max_amount_query q);
          errs = field_error ''category'' (Some c) @ field_error ''start_date'' (Some sd)
               @ field_error ''end_date'' (Some ed) @ field_error ''min_amount'' (Some mn)
               @ field_error ''max_amount'' (Some mx)
      in if errs \<noteq> [] then Inl errs
         else Inr \<lparr> category_param = cleaned c, start_date_param = cleaned sd,
                    end_date_param = cleaned ed, min_amount_param = cleaned mn,
                    max_amount_param = cleaned mx, period_param = period_query q \<rparr>)"

text \<open>
  The three filter backends of the view set, in their order.  The search backend keeps
  the rows whose title or description matches the search terms; how text is matched
  without regard to case is the database's: \<open>search_filter\<close>, the rows kept for a search
  text, is a parameter.  The ordering backend only reorders the rows.
\<close>

definition filter_backends ::
  "(string \<Rightarrow> expense \<Rightarrow> bool) \<Rightarrow> int \<Rightarrow> query_params \<Rightarrow> expense list
     \<Rightarrow> errors + expense list" where
  "filter_backends search_filter today q queryset =
     (case clean_query q of
        Inl errs \<Rightarrow> Inl errs
      | Inr params \<Rightarrow>
          Inr (apply_filter (search_query q) (\<lambda>v. filter (search_filter v))
                 (filter_queryset today params queryset)))"

text \<open>
  The \<^verbatim>\<open>list\<close> action on a query string: 401 without authentication, 400 on a refused
  parameter, and otherwise the rows selected, before they are ordered and divided into
  pages.
\<close>

definition list_view ::
  "(string \<Rightarrow> expense \<Rightarrow> bool) \<Rightarrow> int \<Rightarrow> expense list \<Rightarrow> user_id option \<Rightarrow> query_params
     \<Rightarrow> (expense list) response" where
  "list_view search_filter today objects request_user q =
     (case request_user of
        None \<Rightarrow> HTTP_401_UNAUTHORIZED
      | Some u \<Rightarrow>
          (case filter_backends search_filter today q (get_queryset objects u) of
             Inl errs \<Rightarrow> HTTP_400_BAD_REQUEST errs
           | Inr rows \<Rightarrow> HTTP_200_OK rows))"

text \<open>
  The framework's \<^verbatim>\<open>get_object\<close>: run the filter backends on the queryset of
  \<^verbatim>\<open>get_queryset\<close> (400 when a query parameter is refused), look the key up in the
  result (404 when it is not there), then check the object permissions (403 when one
  refuses).
\<close>

definition get_object ::
  "(string \<Rightarrow> expense \<Rightarrow> bool) \<Rightarrow> int \<Rightarrow> expense list \<Rightarrow> user_id \<Rightarrow> query_params \<Rightarrow> nat
     \<Rightarrow> expense response + expense" where
  "get_object search_filter today objects u q k =
     (case filter_backends search_filter today q (get_queryset objects u) of
        Inl errs \<Rightarrow> Inl (HTTP_400_BAD_REQUEST errs)
      | Inr rows \<Rightarrow>
          (case find (\<lambda>e. pk e = k) rows of
             None \<Rightarrow> Inl HTTP_404_NOT_FOUND
           | Some obj \<Rightarrow>
               (if has_object_permission u obj then Inr obj else Inl HTTP_403_FORBIDDEN)))"

text \<open>
  \<^verbatim>\<open>serializer.save()\<close> on an existing object: every key of the validated data is set
  on the instance, which is then written back under its primary key.
\<close>

definition update_instance :: "nat \<Rightarrow> attrs \<Rightarrow> expense \<Rightarrow> expense" where
  "update_instance now a obj =
     obj \<lparr> title := (case attrs_title a of None \<Rightarrow> title obj | Some t \<Rightarrow> t),
           amount := (case attrs_amount a of None \<Rightarrow> amount obj | Some v \<Rightarrow> v),
           category := (case attrs_category a of None \<Rightarrow> category obj | Some c \<Rightarrow> c),
           description := (case attrs_description a of None \<Rightarrow> description obj | Some d' \<Rightarrow> d'),
           date := (case attrs_date a of None \<Rightarrow> date obj | Some d' \<Rightarrow> d'),
           updated_at := now \<rparr>"

definition write_back :: "expense \<Rightarrow> expense list \<Rightarrow> expense list" where
  "write_back obj objects = map (\<lambda>e. if pk e = pk obj then obj else e) objects"

datatype detail_action = Retrieve | Update expense_data | Partial_update expense_data | Destroy

text \<open>The four actions on \<^verbatim>\<open>/expenses/{id}/\<close>: GET, PUT, PATCH and DELETE.\<close>

definition detail ::
  "field_checks \<Rightarrow> (string \<Rightarrow> expense \<Rightarrow> bool) \<Rightarrow> nat \<Rightarrow> int \<Rightarrow> expense list
     \<Rightarrow> user_id option \<Rightarrow> query_params \<Rightarrow> nat \<Rightarrow> detail_action
     \<Rightarrow> expense response \<times> expense list" where
  "detail fc search_filter now today objects request_user q k act =
     (case request_user of
        None \<Rightarrow> (HTTP_401_UNAUTHORIZED, objects)
      | Some u \<Rightarrow>
          (case get_object search_filter today objects u q k of
             Inl r \<Rightarrow> (r, objects)
           | Inr obj \<Rightarrow>
               (case act of
                  Retrieve \<Rightarrow> (HTTP_200_OK obj, objects)
                | Update d \<Rightarrow>
                    (case run_validation fc False today d of
                       Inl errs \<Rightarrow> (HTTP_400_BAD_REQUEST errs, objects)
                     | Inr a \<Rightarrow>
                         (let obj' = update_instance now a obj
                          in (HTTP_200_OK obj', write_back obj' objects)))
                | Partial_update d \<Rightarrow>
                    (case run_validation fc True today d of
                       Inl errs \<Rightarrow> (HTTP_400_BAD_REQUEST errs, objects)
                     | Inr a \<Rightarrow>
                         (let obj' = update_instance now a obj
                          in (HTTP_200_OK obj', write_back obj' objects)))
                | Destroy \<Rightarrow>
                    (HTTP_204_NO_CONTENT, filter (\<lambda>e. pk e \<noteq> pk obj) objects))))"

text \<open>
  The \<^verbatim>\<open>stats\<close> action behind the authentication check: the dictionary goes through
  the serializer, and an exception raised there is a server error.
\<close>

definition stats_view ::
  "(rat \<Rightarrow> nat \<Rightarrow> rat) \<Rightarrow> expense list \<Rightarrow> user_id option \<Rightarrow> stats_dict response" where
  "stats_view database_avg objects request_user =
     (case request_user of
        None \<Rightarrow> HTTP_401_UNAUTHORIZED
      | Some u \<Rightarrow>
          (case ExpenseStatsSerializer (stats database_avg objects u) of
             None \<Rightarrow> HTTP_500_SERVER_ERROR
           | Some d \<Rightarrow> HTTP_200_OK d))"

section \<open>Credential store\<close>

text \<open>
  \<^verbatim>\<open>users/models.py\<close>: a \<^verbatim>\<open>CustomUser\<close> row.  \<^verbatim>\<open>is_superuser\<close> comes from
  \<^verbatim>\<open>PermissionsMixin\<close>.  The stored password is the hash of the raw one, kept opaque.
\<close>

datatype password_hash = Hashed string

record custom_user =
  user_pk :: nat
  email :: string
  password :: password_hash
  first_name :: string
  last_name :: string
  is_active :: bool
  is_staff :: bool
  is_superuser :: bool
  date_joined :: nat
  user_updated_at :: nat

text \<open>The keyword arguments \<^verbatim>\<open>**extra_fields\<close>; a keyword that is not passed is \<open>None\<close>.\<close>

record extra_fields =
  kw_first_name :: "string option"
  kw_last_name :: "string option"
  kw_is_active :: "bool option"
  kw_is_staff :: "bool option"
  kw_is_superuser :: "bool option"

datatype error = ValueError string | IntegrityError

text \<open>
  The framework's \<^verbatim>\<open>normalize_email\<close>: the part after the last \<^verbatim>\<open>@\<close> of the
  stripped address in lower case; an address without \<^verbatim>\<open>@\<close> is returned as it is.
\<close>

definition is_space :: "char \<Rightarrow> bool" where
  "is_space c = (c \<in> set [CHR '' '', CHR 0x09, CHR 0x0A, CHR 0x0B, CHR 0x0C, CHR 0x0D,
                         CHR 0x1C, CHR 0x1D, CHR 0x1E, CHR 0x1F])"

definition strip :: "string \<Rightarrow> string" where
  "strip s = rev (dropWhile is_space (rev (dropWhile is_space s)))"

definition lower_char :: "char \<Rightarrow> char" where
  "lower_char c =
     (let n = (of_char c :: nat)
      in if 65 \<le> n \<and> n \<le> 90 then char_of (n + 32) else c)"

definition normalize_email :: "string \<Rightarrow> string" where
  "normalize_email email' =
     (if CHR ''@'' \<in> set email' then
        (let s = strip email';
             domain_part = rev (takeWhile (\<lambda>c. c \<noteq> CHR ''@'') (rev s));
             email_name = rev (tl (dropWhile (\<lambda>c. c \<noteq> CHR ''@'') (rev s)))
         in email_name @ ''@'' @ map lower_char domain_part)
      else email')"

text \<open>
  \<^verbatim>\<open>CustomUserManager.create_user\<close>.  The table is a list of rows; \<open>new_pk\<close> is the key
  the database assigns and \<open>now\<close> the time of the call.  A field that is not passed takes
  the default of the model.  The unique index on \<^verbatim>\<open>email\<close> refuses a second row with
  the same address.
\<close>

definition create_user ::
  "nat \<Rightarrow> nat \<Rightarrow> custom_user list \<Rightarrow> string option \<Rightarrow> string \<Rightarrow> extra_fields
     \<Rightarrow> error + custom_user \<times> custom_user list" where
  "create_user new_pk now users email' password' extra =
     (case email' of
        None \<Rightarrow> Inl (ValueError ''El email es obligatorio'')
      | Some e \<Rightarrow>
          (if e = [] then Inl (ValueError ''El email es obligatorio'')
           else
             (let e' = normalize_email e;
                  u = \<lparr> user_pk = new_pk,
                        email = e',
                        password = Hashed password',
                        first_name = (case kw_first_name extra of None \<Rightarrow> [] | Some s \<Rightarrow> s),
                        last_name = (case kw_last_name extra of None \<Rightarrow> [] | Some s \<Rightarrow> s),
                        is_active = (case kw_is_active extra of None \<Rightarrow> True | Some b \<Rightarrow> b),
                        is_staff = (case kw_is_staff extra of None \<Rightarrow> False | Some b \<Rightarrow> b),
                        is_superuser = (case kw_is_superuser extra of None \<Rightarrow> False | Some b \<Rightarrow> b),
                        date_joined = now,
                        user_updated_at = now \<rparr>
              in if e' \<in> set (map email users) then Inl IntegrityError
                 else Inr (u, users @ [u]))))"

text \<open>\<^verbatim>\<open>dict.setdefault\<close> on an optional keyword.\<close>

definition setdefault :: "'a option \<Rightarrow> 'a \<Rightarrow> 'a option" where
  "setdefault v d = (case v of None \<Rightarrow> Some d | Some x \<Rightarrow> Some x)"

text \<open>\<^verbatim>\<open>CustomUserManager.create_superuser\<close>.\<close>

definition create_superuser ::
  "nat \<Rightarrow> nat \<Rightarrow> custom_user list \<Rightarrow> string option \<Rightarrow> string \<Rightarrow> extra_fields
     \<Rightarrow> error + custom_user \<times> custom_user list" where
  "create_superuser new_pk now users email' password' extra =
     (let extra1 = extra \<lparr> kw_is_staff := setdefault (kw_is_staff extra) True \<rparr>;
          extra2 = extra1 \<lparr> kw_is_superuser := setdefault (kw_is_superuser extra1) True \<rparr>;
          extra3 = extra2 \<lparr> kw_is_active := setdefault (kw_is_active extra2) True \<rparr>
      in if kw_is_staff extra3 \<noteq> Some True then
           Inl (ValueError ''El superusuario debe tener is_staff=True'')
         else if kw_is_superuser extra3 \<noteq> Some True then
           Inl (ValueError ''El superusuario debe tener is_superuser=True'')
         else create_user new_pk now users email' password' extra3)"

section \<open>Profile endpoint\<close>

text \<open>
  The body of a PUT or PATCH to \<^verbatim>\<open>/auth/me\<close>, key by key, for the fields of
  \<^verbatim>\<open>UserSerializer.Meta.fields\<close> that a client can send.
\<close>

record profile_data =
  data_id :: "nat option"
  data_email :: "string option"
  data_first_name :: "string option"
  data_last_name :: "string option"
  data_date_joined :: "nat option"
  data_is_active :: "bool option"

record profile_attrs =
  attrs_email :: "string option"
  attrs_first_name :: "string option"
  attrs_last_name :: "string option"
  attrs_is_active :: "bool option"

text \<open>
  The framework's own validation of an address and of a name (format, length, blank),
  as for the expense fields.
\<close>

record profile_checks =
  email_field :: "string \<Rightarrow> string + string"
  name_field :: "string \<Rightarrow> string + string"

text \<open>
  The uniqueness validator that the serializer derives from \<^verbatim>\<open>unique=True\<close>: no other
  row than the instance may hold the address.
\<close>

definition unique_email :: "custom_user list \<Rightarrow> custom_user \<Rightarrow> string \<Rightarrow> string + string" where
  "unique_email users instance v =
     (if v \<in> set (map email (filter (\<lambda>u. user_pk u \<noteq> user_pk instance) users))
      then Inl ''This field must be unique.'' else Inr v)"

text \<open>
  The writable fields of \<^verbatim>\<open>UserSerializer\<close>, in the order of \<^verbatim>\<open>Meta.fields\<close>:
  \<^verbatim>\<open>id\<close> and \<^verbatim>\<open>date_joined\<close> are in \<^verbatim>\<open>read_only_fields\<close>, \<^verbatim>\<open>full_name\<close> is a
  method field; \<^verbatim>\<open>email\<close>, \<^verbatim>\<open>first_name\<close>, \<^verbatim>\<open>last_name\<close> and \<^verbatim>\<open>is_active\<close>
  are read from the body.
\<close>

definition profile_to_internal_value ::
  "profile_checks \<Rightarrow> bool \<Rightarrow> custom_user list \<Rightarrow> custom_user \<Rightarrow> profile_data
     \<Rightarrow> errors + profile_attrs" where
  "profile_to_internal_value pc partial users instance d =
     (let r_email = run_field partial True (email_field pc) (unique_email users instance)
                      (data_email d);
          r_first = run_field partial True (name_field pc) Inr (data_first_name d);
          r_last = run_field partial True (name_field pc) Inr (data_last_name d);
          r_active = run_field partial False Inr Inr (data_is_active d);
          errs = field_error ''email'' r_email @ field_error ''first_name'' r_first
               @ field_error ''last_name'' r_last @ field_error ''is_active'' r_active
      in if errs \<noteq> [] then Inl errs
         else Inr \<lparr> attrs_email = field_value r_email,
                    attrs_first_name = field_value r_first,
                    attrs_last_name = field_value r_last,
                    attrs_is_active = field_value r_active \<rparr>)"

definition update_user :: "nat \<Rightarrow> profile_attrs \<Rightarrow> custom_user \<Rightarrow> custom_user" where
  "update_user now a instance =
     instance \<lparr> email := (case attrs_email a of None \<Rightarrow> email instance | Some v \<Rightarrow> v),
                first_name := (case attrs_first_name a of None \<Rightarrow> first_name instance | Some v \<Rightarrow> v),
                last_name := (case attrs_last_name a of None \<Rightarrow> last_name instance | Some v \<Rightarrow> v),
                is_active := (case attrs_is_active a of None \<Rightarrow> is_active instance | Some v \<Rightarrow> v),
                user_updated_at := now \<rparr>"

definition save_user :: "custom_user \<Rightarrow> custom_user list \<Rightarrow> custom_user list" where
  "save_user u users = map (\<lambda>x. if user_pk x = user_pk u then u else x) users"

text \<open>
  \<^verbatim>\<open>UserProfileView\<close> on PUT (\<open>partial = False\<close>) and PATCH (\<open>partial = True\<close>).
  \<^verbatim>\<open>get_object\<close> returns \<^verbatim>\<open>self.request.user\<close>: the row of the authenticated caller.
  A request without a valid bearer token, or for an account that is gone, is 401.
\<close>

definition profile_update ::
  "profile_checks \<Rightarrow> nat \<Rightarrow> custom_user list \<Rightarrow> nat option \<Rightarrow> bool \<Rightarrow> profile_data
     \<Rightarrow> custom_user response \<times> custom_user list" where
  "profile_update pc now users request_user partial d =
     (case request_user of
        None \<Rightarrow> (HTTP_401_UNAUTHORIZED, users)
      | Some k \<Rightarrow>
          (case find (\<lambda>u. user_pk u = k) users of
             None \<Rightarrow> (HTTP_401_UNAUTHORIZED, users)
           | Some instance \<Rightarrow>
               (case profile_to_internal_value pc partial users instance d of
                  Inl errs \<Rightarrow> (HTTP_400_BAD_REQUEST errs, users)
                | Inr a \<Rightarrow>
                    (let instance' = update_user now a instance
                     in (HTTP_200_OK instance', save_user instance' users)))))"

section \<open>Token service\<close>

text \<open>
  A refresh token after decoding: its identifier \<^verbatim>\<open>jti\<close>, the user it was issued to
  and its expiry time.  Decoding a string (signature and format) is the token library's;
  it is a function from the string to the token, \<open>None\<close> for a string that is not a
  token of this server.
\<close>

record refresh_token =
  jti :: string
  token_user :: nat
  exp :: nat

datatype token_error = InvalidOrExpiredToken | Revoked

text \<open>
  Modelled from the spec: the blacklist of revoked token identifiers and the check of a
  refresh token against it.  The settings module that installs the blacklist and the URL
  module that mounts the refresh endpoint are not among the sources.  The blacklist is
  the list of the identifiers revoked so far.
\<close>

definition RefreshToken ::
  "(string \<Rightarrow> refresh_token option) \<Rightarrow> nat \<Rightarrow> string list \<Rightarrow> string
     \<Rightarrow> token_error + refresh_token" where
  "RefreshToken decode now blacklist raw =
     (case decode raw of
        None \<Rightarrow> Inl InvalidOrExpiredToken
      | Some t \<Rightarrow>
          (if exp t \<le> now then Inl InvalidOrExpiredToken
           else if jti t \<in> set blacklist then Inl Revoked
           else Inr t))"

text \<open>
  Modelled from the spec: \<^verbatim>\<open>refreshAccess(refreshToken)\<close>, which mints an access token
  for the user of a refresh token that is valid and not revoked.  The access token is
  the pair of the user and its expiry time, \<open>lifetime\<close> after the request.
\<close>

definition refreshAccess ::
  "(string \<Rightarrow> refresh_token option) \<Rightarrow> nat \<Rightarrow> nat \<Rightarrow> string list \<Rightarrow> string
     \<Rightarrow> token_error + nat \<times> nat" where
  "refreshAccess decode lifetime now blacklist raw =
     (case RefreshToken decode now blacklist raw of
        Inl e \<Rightarrow> Inl e
      | Inr t \<Rightarrow> Inr (token_user t, now + lifetime))"

text \<open>
  Modelled from the spec: \<^verbatim>\<open>token.blacklist()\<close> adds the identifier of the token to the
  blacklist.
\<close>

definition blacklist_token :: "refresh_token \<Rightarrow> string list \<Rightarrow> string list" where
  "blacklist_token t blacklist = (if jti t \<in> set blacklist then blacklist else blacklist @ [jti t])"

definition token_invalid :: string where
  "token_invalid = ''Token inv'' @ [CHR 0xC3, CHR 0xA1] @ ''lido o expirado.''"

text \<open>
  \<^verbatim>\<open>LogoutView.post\<close>.  \<open>body_refresh\<close> is \<^verbatim>\<open>request.data.get('refresh')\<close>.  Every
  exception raised while the token is built or blacklisted becomes a 400.
\<close>

definition logout ::
  "(string \<Rightarrow> refresh_token option) \<Rightarrow> nat \<Rightarrow> string list \<Rightarrow> nat option \<Rightarrow> string option
     \<Rightarrow> unit response \<times> string list" where
  "logout decode now blacklist request_user body_refresh =
     (case request_user of
        None \<Rightarrow> (HTTP_401_UNAUTHORIZED, blacklist)
      | Some u \<Rightarrow>
          (case body_refresh of
             None \<Rightarrow> (HTTP_400_BAD_REQUEST [(''error'', ''Se requiere el refresh token.'')], blacklist)
           | Some refresh_token \<Rightarrow>
               (if refresh_token = [] then
                  (HTTP_400_BAD_REQUEST [(''error'', ''Se requiere el refresh token.'')], blacklist)
                else
                  (case RefreshToken decode now blacklist refresh_token of
                     Inl e \<Rightarrow> (HTTP_400_BAD_REQUEST [(''error'', token_invalid)], blacklist)
                   | Inr t \<Rightarrow> (HTTP_205_RESET_CONTENT, blacklist_token t blacklist)))))"

text \<open>
  The requests that touch the token service, each with the time at which it is served,
  and the blacklist after a sequence of them.  Issuing a token pair (login, register)
  and refreshing leave the blacklist as it is.
\<close>

datatype token_request =
    Logout_request "nat option" "string option"
  | Refresh_request string
  | Issue_request nat

definition token_step ::
  "(string \<Rightarrow> refresh_token option) \<Rightarrow> string list \<Rightarrow> nat \<times> token_request \<Rightarrow> string list" where
  "token_step decode blacklist r =
     (case snd r of
        Logout_request u b \<Rightarrow> snd (logout decode (fst r) blacklist u b)
      | Refresh_request raw \<Rightarrow> blacklist
      | Issue_request u \<Rightarrow> blacklist)"

definition token_run ::
  "(string \<Rightarrow> refresh_token option) \<Rightarrow> string list \<Rightarrow> (nat \<times> token_request) list \<Rightarrow> string list" where
  "token_run decode blacklist rs = foldl (token_step decode) blacklist rs"

section \<open>Fixtures\<close>

text \<open>
  The rows of \<^verbatim>\<open>ExpenseStatsTest.setUp\<close> in \<^verbatim>\<open>expenses/tests.py\<close>, owned by user 10,
  on day 100.
\<close>

definition gasto_1 :: expense where
  "gasto_1 = \<lparr> pk = 11, user = 10, title = ''Gasto 1'', amount = 10000, category = ''GROCERIES'',
               description = None, date = 100, created_at = 0, updated_at = 0 \<rparr>"

definition gasto_2 :: expense where
  "gasto_2 = \<lparr> pk = 12, user = 10, title = ''Gasto 2'', amount = 20000, category = ''GROCERIES'',
               description = None, date = 100, created_at = 0, updated_at = 0 \<rparr>"

definition gasto_3 :: expense where
  "gasto_3 = \<lparr> pk = 13, user = 10, title = ''Gasto 3'', amount = 30000, category = ''LEISURE'',
               description = None, date = 100, created_at = 0, updated_at = 0 \<rparr>"

text \<open>A row of another user, an old row and a row dated after day 100.\<close>

definition gasto_user_2 :: expense where
  "gasto_user_2 = \<lparr> pk = 14, user = 20, title = ''Gasto User 2'', amount = 30000,
                    category = ''ELECTRONICS'', description = Some ''Compra'', date = 100,
                    created_at = 0, updated_at = 0 \<rparr>"

definition gasto_viejo :: expense where
  "gasto_viejo = \<lparr> pk = 15, user = 10, title = ''Gasto viejo'', amount = 200000,
                   category = ''ELECTRONICS'', description = None, date = 90,
                   created_at = 0, updated_at = 0 \<rparr>"

definition gasto_futuro :: expense where
  "gasto_futuro = \<lparr> pk = 16, user = 10, title = ''Gasto futuro'', amount = 5000,
                    category = ''OTHERS'', description = None, date = 108,
                    created_at = 0, updated_at = 0 \<rparr>"

text \<open>
  Three small expenses of user 10, whose average is not a number of cents, and an
  expense whose category is none of the seven codes, as the table accepts one.
\<close>

definition diez_a :: expense where
  "diez_a = \<lparr> pk = 21, user = 10, title = ''Pan'', amount = 10, category = ''GROCERIES'',
              description = None, date = 100, created_at = 0, updated_at = 0 \<rparr>"

definition diez_b :: expense where
  "diez_b = \<lparr> pk = 22, user = 10, title = ''Leche'', amount = 10, category = ''GROCERIES'',
              description = None, date = 100, created_at = 0, updated_at = 0 \<rparr>"

definition once :: expense where
  "once = \<lparr> pk = 23, user = 10, title = ''Cine'', amount = 11, category = ''LEISURE'',
            description = None, date = 100, created_at = 0, updated_at = 0 \<rparr>"

text \<open>A database that returns an average to thirteen decimal places.\<close>

definition avg_13_places :: "rat \<Rightarrow> nat \<Rightarrow> rat" where
  "avg_13_places v n = of_int \<lfloor>v / of_nat n * 10 ^ 13\<rfloor> / 10 ^ 13"

text \<open>
  Query strings: an empty one, and \<^verbatim>\<open>?category=FOO\<close>.  The fixtures send no search
  text; \<open>match_any\<close> stands for the text matching of the database.
\<close>

definition no_query :: query_params where
  "no_query = \<lparr> category_query = None, start_date_query = None, end_date_query = None,
                 min_amount_query = None, max_amount_query = None, period_query = None,
                 search_query = None \<rparr>"

definition category_foo :: query_params where
  "category_foo = no_query \<lparr> category_query := Some ''FOO'' \<rparr>"

definition match_any :: "string \<Rightarrow> expense \<Rightarrow> bool" where
  "match_any v e = True"

text \<open>A request whose only query parameter is \<^verbatim>\<open>period\<close>.\<close>

definition period_only :: "string \<Rightarrow> filter_params" where
  "period_only p = no_params \<lparr> period_param := Some p \<rparr>"

text \<open>Serializer fields that accept the values of the fixtures as they are.\<close>

definition fields_accept :: field_checks where
  "fields_accept = \<lparr> title_field = Inr, amount_field = Inr, description_field = Inr \<rparr>"

text \<open>
  The body of \<^verbatim>\<open>test_create_expense_large_amount_without_description\<close>, with a
  \<^verbatim>\<open>user\<close> key added, and a body that sends only an amount.
\<close>

definition gasto_grande :: expense_data where
  "gasto_grande = \<lparr> data_user = Some 20, data_title = Some ''Gasto Grande'',
                    data_amount = Some 2000000, data_category = Some ''ELECTRONICS'',
                    data_description = None, data_date = Some 100 \<rparr>"

definition amount_only :: "rat \<Rightarrow> expense_data" where
  "amount_only a = \<lparr> data_user = None, data_title = None, data_amount = Some a,
                     data_category = None, data_description = None, data_date = None \<rparr>"

definition title_and_amount :: expense_data where
  "title_and_amount = \<lparr> data_user = None, data_title = Some ''Compra grande'',
                        data_amount = Some 2000000, data_category = None,
                        data_description = None, data_date = None \<rparr>"

text \<open>The body of \<^verbatim>\<open>test_create_expense_success\<close>, with a \<^verbatim>\<open>user\<close> key added.\<close>

definition pago_servicios :: expense_data where
  "pago_servicios = \<lparr> data_user = Some 20, data_title = Some ''Nuevo Gasto'',
                      data_amount = Some 50000, data_category = Some ''UTILITIES'',
                      data_description = Some (Some ''Pago de servicios''),
                      data_date = Some 100 \<rparr>"

definition nuevo_gasto :: expense where
  "nuevo_gasto = \<lparr> pk = 17, user = 10, title = ''Nuevo Gasto'', amount = 50000,
                   category = ''UTILITIES'', description = Some ''Pago de servicios'',
                   date = 100, created_at = 5, updated_at = 5 \<rparr>"

text \<open>
  The call of \<^verbatim>\<open>test_create_superuser\<close> in \<^verbatim>\<open>users/tests.py\<close>, and the same call with
  \<^verbatim>\<open>is_active=False\<close> added; the rows they create.
\<close>

definition admin_extra :: extra_fields where
  "admin_extra = \<lparr> kw_first_name = Some ''Admin'', kw_last_name = Some ''User'',
                   kw_is_active = None, kw_is_staff = None, kw_is_superuser = None \<rparr>"

definition admin_user :: custom_user where
  "admin_user = \<lparr> user_pk = 30, email = ''admin@example.com'',
                  password = Hashed ''AdminPassword123!'', first_name = ''Admin'',
                  last_name = ''User'', is_active = True, is_staff = True, is_superuser = True,
                  date_joined = 5, user_updated_at = 5 \<rparr>"

definition admin_inactive :: custom_user where
  "admin_inactive = admin_user \<lparr> is_active := False \<rparr>"

text \<open>
  The user of \<^verbatim>\<open>UserProfileViewTest\<close>, address fields that accept every value as it
  is, and a PATCH body that sends a new address and a date of registration.
\<close>

definition profile_user :: custom_user where
  "profile_user = \<lparr> user_pk = 40, email = ''profile@example.com'',
                    password = Hashed ''ProfilePassword123!'', first_name = ''Profile'',
                    last_name = ''User'', is_active = True, is_staff = False,
                    is_superuser = False, date_joined = 3, user_updated_at = 3 \<rparr>"

definition profile_accept :: profile_checks where
  "profile_accept = \<lparr> email_field = Inr, name_field = Inr \<rparr>"

definition new_address :: profile_data where
  "new_address = \<lparr> data_id = None, data_email = Some ''other@example.com'',
                   data_first_name = None, data_last_name = None,
                   data_date_joined = Some 99, data_is_active = None \<rparr>"

text \<open>
  A server that has issued one refresh token, to user 10, valid until time 1000; every
  other string fails to decode, as \<^verbatim>\<open>'invalid_token'\<close> does in
  \<^verbatim>\<open>test_logout_with_invalid_refresh_token\<close>.
\<close>

definition issued_token :: refresh_token where
  "issued_token = \<lparr> jti = ''jti-1'', token_user = 10, exp = 1000 \<rparr>"

definition decode_issued :: "string \<Rightarrow> refresh_token option" where
  "decode_issued raw = (if raw = ''refresh-1'' then Some issued_token else None)"

section \<open>Properties of the period filter\<close>

lemma filter_queryset_period_only:
  "filter_queryset today (period_only p) qs =
     (if p = [] then qs else filter_by_period today qs ''period'' p)"
  by (simp add: filter_queryset_def period_only_def no_params_def apply_filter_def)

text \<open>
  Claim C4, as the code has it.  With \<^verbatim>\<open>period=week\<close> at date \<open>today\<close> the list holds
  exactly the caller's expenses dated \<open>today - 7\<close> or later; \<^verbatim>\<open>month\<close> and
  \<^verbatim>\<open>3months\<close> do the same with 30 and 90 days.  The filter sets a lower bound only.
  Any other value of \<^verbatim>\<open>period\<close> returns the caller's expenses unfiltered, with
  status 200.
\<close>

theorem period_filter:
  "\<exists>rs. list_expenses today objects (Some u) (period_only p) = HTTP_200_OK rs
     \<and> (p = ''week'' \<longrightarrow> (\<forall>e. e \<in> set rs \<longleftrightarrow> e \<in> set objects \<and> user e = u \<and> today - 7 \<le> date e))
     \<and> (p = ''month'' \<longrightarrow> (\<forall>e. e \<in> set rs \<longleftrightarrow> e \<in> set objects \<and> user e = u \<and> today - 30 \<le> date e))
     \<and> (p = ''3months'' \<longrightarrow> (\<forall>e. e \<in> set rs \<longleftrightarrow> e \<in> set objects \<and> user e = u \<and> today - 90 \<le> date e))
     \<and> (p \<notin> set [''week'', ''month'', ''3months''] \<longrightarrow> rs = get_queryset objects u)"
  by (auto simp: list_expenses_def filter_queryset_period_only filter_by_period_def
      get_queryset_def)

theorem period_filter_witness:
  "list_expenses 100 [gasto_1, gasto_viejo, gasto_user_2] (Some 10) (period_only ''week'')
     = HTTP_200_OK [gasto_1]
   \<and> list_expenses 100 [gasto_1, gasto_viejo, gasto_user_2] (Some 10) (period_only ''year'')
     = HTTP_200_OK [gasto_1, gasto_viejo]"
  using period_filter [of 100 "[gasto_1, gasto_viejo, gasto_user_2]" 10 "''week''"]
    period_filter [of 100 "[gasto_1, gasto_viejo, gasto_user_2]" 10 "''year''"]
  by (simp add: list_expenses_def filter_queryset_period_only filter_by_period_def
      get_queryset_def gasto_1_def gasto_viejo_def gasto_user_2_def)

text \<open>
  Claim C4 as stated fails: on day 100 an expense of the caller dated day 108 is returned
  for \<^verbatim>\<open>period=week\<close>, and day 108 is not within the seven days up to day 100.
\<close>

theorem period_week_counterexample:
  "list_expenses 100 [gasto_futuro] (Some 10) (period_only ''week'') = HTTP_200_OK [gasto_futuro]
   \<and> \<not> (100 - 7 \<le> date gasto_futuro \<and> date gasto_futuro \<le> 100)"
  by (simp add: list_expenses_def filter_queryset_period_only filter_by_period_def
      get_queryset_def gasto_futuro_def)

section \<open>Properties of the ownership scope\<close>

lemma filter_queryset_subset: "set (filter_queryset today params qs) \<subseteq> set qs"
  by (auto simp: filter_queryset_def apply_filter_def filter_by_period_def Let_def
      split: option.splits if_splits)

lemma find_Some_set: "find P xs = Some x \<Longrightarrow> x \<in> set xs \<and> P x"
  by (induction xs) (auto split: if_splits)

lemma filter_backends_subset:
  assumes "filter_backends sf today q qs = Inr rows"
  shows "set rows \<subseteq> set qs"
proof -
  from assms obtain params where
    "rows = apply_filter (search_query q) (\<lambda>v. filter (sf v)) (filter_queryset today params qs)"
    by (auto simp: filter_backends_def split: sum.splits)
  then have "set rows \<subseteq> set (filter_queryset today params qs)"
    by (auto simp: apply_filter_def split: option.splits)
  then show ?thesis using filter_queryset_subset by blast
qed

lemma filter_backends_Inl:
  "filter_backends sf today q qs = Inl errs \<longleftrightarrow> clean_query q = Inl errs"
  by (auto simp: filter_backends_def split: sum.splits)

lemma get_object_Inr:
  assumes "get_object sf today objects u q k = Inr obj"
  shows "obj \<in> set objects \<and> user obj = u \<and> pk obj = k"
proof -
  from assms obtain rows x where
    b: "filter_backends sf today q (get_queryset objects u) = Inr rows"
    and f: "find (\<lambda>e. pk e = k) rows = Some x"
    by (auto simp: get_object_def split: sum.splits option.splits)
  with assms have "x = obj"
    by (auto simp: get_object_def split: if_splits)
  moreover from f have "x \<in> set (get_queryset objects u) \<and> pk x = k"
    using find_Some_set [OF f] filter_backends_subset [OF b] by blast
  ultimately show ?thesis by (simp add: get_queryset_def)
qed

lemma get_object_Inl:
  assumes "get_object sf today objects u q k = Inl r"
  shows "(\<exists>p. clean_query q = Inr p \<and> r = HTTP_404_NOT_FOUND)
       \<or> (\<exists>errs. clean_query q = Inl errs \<and> r = HTTP_400_BAD_REQUEST errs)"
proof (cases "filter_backends sf today q (get_queryset objects u)")
  case (Inl errs)
  then have "clean_query q = Inl errs" by (simp add: filter_backends_Inl)
  with assms Inl show ?thesis by (simp add: get_object_def)
next
  case (Inr rows)
  then obtain p where p: "clean_query q = Inr p"
    by (auto simp: filter_backends_def split: sum.splits)
  show ?thesis
  proof (cases "find (\<lambda>e. pk e = k) rows")
    case None
    with assms Inr p show ?thesis by (simp add: get_object_def)
  next
    case (Some x)
    then have "x \<in> set (get_queryset objects u)"
      using find_Some_set [OF Some] filter_backends_subset [OF Inr] by blast
    then have "has_object_permission u x"
      by (simp add: get_queryset_def has_object_permission_def)
    with assms Inr Some show ?thesis by (simp add: get_object_def)
  qed
qed

lemma get_object_other_owner:
  assumes "distinct (map pk objects)" and "e \<in> set objects" and "user e \<noteq> u"
  shows "(\<exists>p. clean_query q = Inr p
            \<and> get_object sf today objects u q (pk e) = Inl HTTP_404_NOT_FOUND)
       \<or> (\<exists>errs. clean_query q = Inl errs
            \<and> get_object sf today objects u q (pk e) = Inl (HTTP_400_BAD_REQUEST errs))"
proof (cases "get_object sf today objects u q (pk e)")
  case (Inl r)
  then show ?thesis using get_object_Inl [OF Inl] by auto
next
  case (Inr obj)
  then have o: "obj \<in> set objects \<and> user obj = u \<and> pk obj = pk e"
    by (rule get_object_Inr)
  with assms(1,2) have "obj = e"
    by (meson distinct_map inj_onD)
  with o assms(3) show ?thesis by simp
qed

lemma others_write_back:
  assumes "distinct (map pk objects)" and "obj \<in> set objects" and "user obj = u"
    and "user obj' = u" and "pk obj' = pk obj"
  shows "filter (\<lambda>x. user x \<noteq> u) (write_back obj' objects) = filter (\<lambda>x. user x \<noteq> u) objects"
proof -
  have "\<And>x. x \<in> set objects \<Longrightarrow> pk x = pk obj \<Longrightarrow> x = obj"
    using assms(1,2) by (meson distinct_map inj_onD)
  then have "\<And>x. x \<in> set objects \<Longrightarrow> pk x = pk obj' \<Longrightarrow> user x = u"
    using assms(3,5) by auto
  then show ?thesis
    unfolding write_back_def using assms(4)
    by (induction objects) auto
qed

lemma others_destroy:
  assumes "distinct (map pk objects)" and "obj \<in> set objects" and "user obj = u"
  shows "filter (\<lambda>x. user x \<noteq> u) (filter (\<lambda>e. pk e \<noteq> pk obj) objects)
           = filter (\<lambda>x. user x \<noteq> u) objects"
proof -
  have "\<And>x. x \<in> set objects \<Longrightarrow> pk x = pk obj \<Longrightarrow> user x = u"
    using assms by (metis distinct_map inj_onD)
  then show ?thesis
    by (induction objects) auto
qed

lemma update_instance_keeps: "user (update_instance now a obj) = user obj
    \<and> pk (update_instance now a obj) = pk obj"
  by (simp add: update_instance_def)

lemma detail_scope:
  assumes d: "distinct (map pk objects)"
    and r: "detail fc sf now today objects (Some u) q k act = (resp, objects')"
  shows "filter (\<lambda>x. user x \<noteq> u) objects' = filter (\<lambda>x. user x \<noteq> u) objects
         \<and> (\<forall>x. resp = HTTP_200_OK x \<longrightarrow> user x = u)
         \<and> resp \<noteq> HTTP_403_FORBIDDEN"
proof (cases "get_object sf today objects u q k")
  case (Inl e)
  from get_object_Inl [OF Inl]
  have "e = HTTP_404_NOT_FOUND \<or> (\<exists>errs. e = HTTP_400_BAD_REQUEST errs)" by auto
  with Inl r show ?thesis by (auto simp: detail_def)
next
  case (Inr obj)
  then have o: "obj \<in> set objects \<and> user obj = u \<and> pk obj = k"
    by (rule get_object_Inr)
  have wb: "\<And>a. filter (\<lambda>x. user x \<noteq> u) (write_back (update_instance now a obj) objects)
                = filter (\<lambda>x. user x \<noteq> u) objects"
  proof -
    fix a
    show "filter (\<lambda>x. user x \<noteq> u) (write_back (update_instance now a obj) objects)
            = filter (\<lambda>x. user x \<noteq> u) objects"
      by (rule others_write_back [OF d, of obj]) (simp_all add: o update_instance_keeps)
  qed
  have ds: "filter (\<lambda>x. user x \<noteq> u) (filter (\<lambda>e. pk e \<noteq> pk obj) objects)
              = filter (\<lambda>x. user x \<noteq> u) objects"
    by (rule others_destroy [OF d]) (simp_all add: o)
  show ?thesis
  proof (cases act)
    case Retrieve
    with Inr r o show ?thesis by (auto simp: detail_def)
  next
    case (Update body)
    with Inr r o wb show ?thesis
      by (auto simp: detail_def Let_def update_instance_keeps split: sum.splits)
  next
    case (Partial_update body)
    with Inr r o wb show ?thesis
      by (auto simp: detail_def Let_def update_instance_keeps split: sum.splits)
  next
    case Destroy
    with Inr r o ds show ?thesis by (auto simp: detail_def)
  qed
qed

lemma retrieve_category_foo:
  "detail fields_accept match_any 5 100 [gasto_1, gasto_user_2] (Some 10) category_foo 14
       Retrieve
     = (HTTP_400_BAD_REQUEST
          [(''category'', ''Select a valid choice. FOO is not one of the available choices.'')],
        [gasto_1, gasto_user_2])"
  by (simp add: detail_def get_object_def filter_backends_def clean_query_def clean_choice_def
      clean_value_def field_error_def category_foo_def no_query_def CATEGORY_CHOICES_def)

text \<open>
  Claim C1, as the code has it.  Primary keys are unique.  For an expense \<open>e\<close> in the
  table and an authenticated requester \<open>r\<close> who is not its owner, GET, PUT, PATCH and
  DELETE on the key of \<open>e\<close> answer 404, with no payload, whenever the filter form
  accepts the query parameters of the request, and 400 with the errors of the form when
  it refuses one; the table is left as it is, whatever the body.  \<open>e\<close> is in no list the
  requester gets.  For every key and action, the answer is never 403, an expense in the
  answer is owned by the requester, and the rows of other owners are the same after the
  request.
\<close>

theorem cross_owner_not_found:
  assumes "distinct (map pk objects)" and "e \<in> set objects" and "user e \<noteq> r"
  shows "(\<forall>p. clean_query q = Inr p \<longrightarrow>
            detail fc sf now today objects (Some r) q (pk e) act
              = (HTTP_404_NOT_FOUND, objects))
    \<and> (\<forall>errs. clean_query q = Inl errs \<longrightarrow>
            detail fc sf now today objects (Some r) q (pk e) act
              = (HTTP_400_BAD_REQUEST errs, objects))
    \<and> (\<forall>rs. list_view sf today objects (Some r) q = HTTP_200_OK rs \<longrightarrow> e \<notin> set rs)
    \<and> (\<forall>rs params. list_expenses today objects (Some r) params = HTTP_200_OK rs
            \<longrightarrow> e \<notin> set rs)
    \<and> (\<forall>k resp objects'.
          detail fc sf now today objects (Some r) q k act = (resp, objects') \<longrightarrow>
            resp \<noteq> HTTP_403_FORBIDDEN
            \<and> (\<forall>x. resp = HTTP_200_OK x \<longrightarrow> user x = r)
            \<and> filter (\<lambda>x. user x \<noteq> r) objects' = filter (\<lambda>x. user x \<noteq> r) objects)"
proof -
  note g = get_object_other_owner [OF assms, of q sf today]
  have 1: "\<forall>p. clean_query q = Inr p \<longrightarrow>
            detail fc sf now today objects (Some r) q (pk e) act
              = (HTTP_404_NOT_FOUND, objects)"
    using g by (auto simp: detail_def)
  have 2: "\<forall>errs. clean_query q = Inl errs \<longrightarrow>
            detail fc sf now today objects (Some r) q (pk e) act
              = (HTTP_400_BAD_REQUEST errs, objects)"
    using g by (auto simp: detail_def)
  have 3: "\<forall>rs. list_view sf today objects (Some r) q = HTTP_200_OK rs \<longrightarrow> e \<notin> set rs"
  proof (intro allI impI)
    fix rs assume "list_view sf today objects (Some r) q = HTTP_200_OK rs"
    then have "filter_backends sf today q (get_queryset objects r) = Inr rs"
      by (auto simp: list_view_def split: sum.splits)
    then have "set rs \<subseteq> set (get_queryset objects r)"
      by (rule filter_backends_subset)
    with assms(3) show "e \<notin> set rs" by (auto simp: get_queryset_def)
  qed
  have 4: "\<forall>rs params. list_expenses today objects (Some r) params = HTTP_200_OK rs
            \<longrightarrow> e \<notin> set rs"
  proof (intro allI impI)
    fix rs params assume "list_expenses today objects (Some r) params = HTTP_200_OK rs"
    then have "set rs \<subseteq> set (get_queryset objects r)"
      using filter_queryset_subset by (auto simp: list_expenses_def)
    with assms(3) show "e \<notin> set rs" by (auto simp: get_queryset_def)
  qed
  have 5: "\<forall>k resp objects'.
          detail fc sf now today objects (Some r) q k act = (resp, objects') \<longrightarrow>
            resp \<noteq> HTTP_403_FORBIDDEN
            \<and> (\<forall>x. resp = HTTP_200_OK x \<longrightarrow> user x = r)
            \<and> filter (\<lambda>x. user x \<noteq> r) objects' = filter (\<lambda>x. user x \<noteq> r) objects"
    using detail_scope [OF assms(1)] by blast
  from 1 2 3 4 5 show ?thesis by blast
qed

theorem cross_owner_not_found_witness:
  "distinct (map pk [gasto_1, gasto_user_2]) \<and> gasto_user_2 \<in> set [gasto_1, gasto_user_2]
   \<and> user gasto_user_2 \<noteq> 10
   \<and> detail fields_accept match_any 5 100 [gasto_1, gasto_user_2] (Some 10) no_query
        (pk gasto_user_2) Destroy = (HTTP_404_NOT_FOUND, [gasto_1, gasto_user_2])
   \<and> list_view match_any 100 [gasto_1, gasto_user_2] (Some 10) no_query
       = HTTP_200_OK [gasto_1]"
proof -
  have h1: "distinct (map pk [gasto_1, gasto_user_2])"
    by (simp add: gasto_1_def gasto_user_2_def)
  have h2: "gasto_user_2 \<in> set [gasto_1, gasto_user_2]" by simp
  have h3: "user gasto_user_2 \<noteq> 10" by (simp add: gasto_user_2_def)
  have c: "clean_query no_query = Inr no_params"
    by (simp add: clean_query_def clean_choice_def clean_value_def field_error_def cleaned_def
        no_query_def no_params_def)
  have l: "list_view match_any 100 [gasto_1, gasto_user_2] (Some 10) no_query
             = HTTP_200_OK [gasto_1]"
    by (simp add: list_view_def filter_backends_def c filter_queryset_def no_params_def
        apply_filter_def get_queryset_def gasto_1_def gasto_user_2_def)
      (simp add: no_query_def)
  from cross_owner_not_found [OF h1 h2 h3, where q = no_query and fc = fields_accept
      and sf = match_any and now = 5 and today = 100 and act = Destroy] c
  have "detail fields_accept match_any 5 100 [gasto_1, gasto_user_2] (Some 10) no_query
        (pk gasto_user_2) Destroy = (HTTP_404_NOT_FOUND, [gasto_1, gasto_user_2])"
    by blast
  with h1 h2 h3 l show ?thesis by blast
qed

text \<open>
  Claim C1 as stated fails: a GET by user 10 on the expense 14 of user 20 with the query
  string \<^verbatim>\<open>?category=FOO\<close> is answered with 400, not with 404.
\<close>

theorem cross_owner_bad_query_counterexample:
  "detail fields_accept match_any 5 100 [gasto_1, gasto_user_2] (Some 10) category_foo 14
       Retrieve
     = (HTTP_400_BAD_REQUEST
          [(''category'', ''Select a valid choice. FOO is not one of the available choices.'')],
        [gasto_1, gasto_user_2])
   \<and> pk gasto_user_2 = 14 \<and> user gasto_user_2 = 20"
  using retrieve_category_foo by (simp add: gasto_user_2_def)

section \<open>Properties of the profile endpoint\<close>

lemma profile_ignores_read_only:
  "profile_to_internal_value pc partial users instance
       (d \<lparr> data_id := x, data_date_joined := y \<rparr>)
     = profile_to_internal_value pc partial users instance d"
  by (simp add: profile_to_internal_value_def)

lemma update_user_keeps:
  "user_pk (update_user now a u) = user_pk u \<and> date_joined (update_user now a u) = date_joined u"
  by (simp add: update_user_def)

lemma find_save_user:
  assumes "find (\<lambda>x. user_pk x = k) users = Some u" and "user_pk u' = k"
  shows "find (\<lambda>x. user_pk x = k) (save_user u' users) = Some u'"
  using assms unfolding save_user_def
  by (induction users) (auto split: if_splits)

text \<open>
  Claim C2, as the code has it.  On PUT and PATCH to the profile endpoint the fields
  \<^verbatim>\<open>id\<close> and \<^verbatim>\<open>date_joined\<close> are read-only: the outcome does not depend on the values
  sent for them, and the caller's row has the same key and the same date of registration
  after the request.  The address is writable: when the request succeeds with an
  \<^verbatim>\<open>email\<close> key in the body, the stored address is the submitted one as the address
  field hands it on.
\<close>

theorem profile_read_only_fields:
  assumes "find (\<lambda>x. user_pk x = k) users = Some u"
    and "profile_update pc now users (Some k) partial d = (resp, users')"
  shows "profile_update pc now users (Some k) partial (d \<lparr> data_id := x, data_date_joined := y \<rparr>)
           = (resp, users')
    \<and> (\<exists>u'. find (\<lambda>x. user_pk x = k) users' = Some u'
            \<and> user_pk u' = user_pk u \<and> date_joined u' = date_joined u
            \<and> (\<forall>r v v'. resp = HTTP_200_OK r \<and> data_email d = Some v \<and> email_field pc v = Inr v'
                  \<longrightarrow> email u' = v'))"
proof -
  have 1: "profile_update pc now users (Some k) partial
             (d \<lparr> data_id := x, data_date_joined := y \<rparr>) = (resp, users')"
    using assms(2) by (simp add: profile_update_def assms(1) profile_ignores_read_only)
  have k: "user_pk u = k"
    using find_Some_set [OF assms(1)] by simp
  show ?thesis
  proof (cases "profile_to_internal_value pc partial users u d")
    case (Inl errs)
    with assms have "users' = users"
      by (simp add: profile_update_def)
    with assms Inl 1 show ?thesis
      by (auto simp: profile_update_def)
  next
    case (Inr a)
    let ?u' = "update_user now a u"
    from assms Inr have r: "resp = HTTP_200_OK ?u'" and s: "users' = save_user ?u' users"
      by (simp_all add: profile_update_def Let_def)
    have f: "find (\<lambda>x. user_pk x = k) users' = Some ?u'"
      unfolding s using assms(1) k by (intro find_save_user) (simp_all add: update_user_keeps)
    have e: "\<forall>v v'. data_email d = Some v \<and> email_field pc v = Inr v' \<longrightarrow> email ?u' = v'"
      using Inr
      by (auto simp: profile_to_internal_value_def run_field_def unique_email_def
          field_error_def field_value_def update_user_def Let_def
          split: if_splits option.splits sum.splits)
    from 1 f e show ?thesis
      by (auto simp: update_user_keeps)
  qed
qed

lemma patch_new_address:
  "profile_update profile_accept 5 [profile_user] (Some 40) True new_address
     = (HTTP_200_OK (profile_user \<lparr> email := ''other@example.com'', user_updated_at := 5 \<rparr>),
        [profile_user \<lparr> email := ''other@example.com'', user_updated_at := 5 \<rparr>])"
  by (simp add: profile_update_def profile_to_internal_value_def run_field_def
      profile_accept_def unique_email_def field_error_def field_value_def update_user_def
      save_user_def new_address_def profile_user_def Let_def)

theorem profile_read_only_fields_witness:
  "find (\<lambda>x. user_pk x = 40) [profile_user] = Some profile_user
   \<and> profile_update profile_accept 5 [profile_user] (Some 40) True new_address
       = (HTTP_200_OK (profile_user \<lparr> email := ''other@example.com'', user_updated_at := 5 \<rparr>),
          [profile_user \<lparr> email := ''other@example.com'', user_updated_at := 5 \<rparr>])
   \<and> profile_update profile_accept 5 [profile_user] (Some 40) True
         (new_address \<lparr> data_id := Some 7, data_date_joined := None \<rparr>)
       = (HTTP_200_OK (profile_user \<lparr> email := ''other@example.com'', user_updated_at := 5 \<rparr>),
          [profile_user \<lparr> email := ''other@example.com'', user_updated_at := 5 \<rparr>])
   \<and> date_joined (profile_user \<lparr> email := ''other@example.com'', user_updated_at := 5 \<rparr>)
       = date_joined profile_user"
proof -
  have h: "find (\<lambda>x. user_pk x = 40) [profile_user] = Some profile_user"
    by (simp add: profile_user_def)
  from profile_read_only_fields [OF h patch_new_address, where x = "Some 7" and y = None]
  have "profile_update profile_accept 5 [profile_user] (Some 40) True
         (new_address \<lparr> data_id := Some 7, data_date_joined := None \<rparr>)
       = (HTTP_200_OK (profile_user \<lparr> email := ''other@example.com'', user_updated_at := 5 \<rparr>),
          [profile_user \<lparr> email := ''other@example.com'', user_updated_at := 5 \<rparr>])"
    by blast
  with h patch_new_address show ?thesis by simp
qed

text \<open>
  Claim C2 as stated fails: a PATCH with a new address replaces the stored address of
  the caller.
\<close>

theorem profile_email_counterexample:
  "profile_update profile_accept 5 [profile_user] (Some 40) True new_address
     = (HTTP_200_OK (profile_user \<lparr> email := ''other@example.com'', user_updated_at := 5 \<rparr>),
        [profile_user \<lparr> email := ''other@example.com'', user_updated_at := 5 \<rparr>])
   \<and> email (profile_user \<lparr> email := ''other@example.com'', user_updated_at := 5 \<rparr>)
       \<noteq> email profile_user"
  by (simp add: profile_update_def profile_to_internal_value_def run_field_def
      profile_accept_def unique_email_def field_error_def field_value_def update_user_def
      save_user_def new_address_def profile_user_def Let_def)

section \<open>Properties of expense creation and update\<close>

lemma to_internal_value_ignores_user:
  "to_internal_value fc partial today (d \<lparr> data_user := x \<rparr>) = to_internal_value fc partial today d"
  by (simp add: to_internal_value_def)

lemma save_new_user: "save_new new_pk now a u = Some obj \<Longrightarrow> user obj = u"
  by (auto simp: save_new_def split: option.splits)

text \<open>
  Claim C7.  For an authenticated caller \<open>c\<close>, a \<^verbatim>\<open>user\<close> key in the body of a creation
  request changes nothing: the request has the same outcome with any other value of the
  key.  When the request creates an expense, that expense is the one row added to the
  table and its owner is \<open>c\<close>.
\<close>

theorem create_owner_is_caller:
  "create fc new_pk now today objects (Some c) (d \<lparr> data_user := x \<rparr>)
     = create fc new_pk now today objects (Some c) d
   \<and> (\<forall>obj objects'.
        create fc new_pk now today objects (Some c) d = (HTTP_201_CREATED obj, objects') \<longrightarrow>
          user obj = c \<and> objects' = objects @ [obj])"
  by (auto simp: create_def run_validation_def to_internal_value_ignores_user
      dest: save_new_user split: sum.splits option.splits)

lemma create_pago_servicios:
  "create fields_accept 17 5 100 [gasto_1] (Some 10) pago_servicios
     = (HTTP_201_CREATED nuevo_gasto, [gasto_1, nuevo_gasto])"
  by (simp add: create_def run_validation_def to_internal_value_def run_field_def
      fields_accept_def validate_amount_def validate_date_def category_field_def
      CATEGORY_CHOICES_def field_error_def field_value_def validate_def save_new_def
      pago_servicios_def nuevo_gasto_def)

theorem create_owner_is_caller_witness:
  "create fields_accept 17 5 100 [gasto_1] (Some 10) pago_servicios
     = (HTTP_201_CREATED nuevo_gasto, [gasto_1, nuevo_gasto])
   \<and> data_user pago_servicios = Some 20
   \<and> user nuevo_gasto = 10"
  using create_owner_is_caller [where fc = fields_accept and new_pk = 17 and now = 5
      and today = 100 and objects = "[gasto_1]" and c = 10 and d = pago_servicios and x = None]
    create_pago_servicios
  by (simp add: pago_servicios_def)

text \<open>
  What the serializer makes of a creation body in which every required field is present
  and accepted by its field, and the description is absent, or is handed on as
  \<^verbatim>\<open>None\<close> or as the empty string.
\<close>

lemma to_internal_value_complete:
  assumes "data_title d = Some t" and "title_field fc t = Inr t'"
    and "data_amount d = Some a" and "amount_field fc a = Inr a'" and "0 < a'"
    and "data_category d = Some c" and "c \<in> set (map fst CATEGORY_CHOICES)"
    and "data_date d = Some dt" and "dt \<le> today"
    and "data_description d = None
         \<or> (\<exists>x y. data_description d = Some x \<and> description_field fc x = Inr y
                 \<and> (y = None \<or> y = Some []))"
  shows "\<exists>ds. to_internal_value fc False today d =
           Inr \<lparr> attrs_title = Some t', attrs_amount = Some a', attrs_category = Some c,
                 attrs_description = ds, attrs_date = Some dt \<rparr>
         \<and> (ds = None \<or> ds = Some None \<or> ds = Some (Some []))"
  using assms
  by (auto simp: to_internal_value_def run_field_def validate_amount_def validate_date_def
      category_field_def field_error_def field_value_def)

text \<open>
  Claim C5.  Take a creation request by an authenticated caller whose title, category and
  date are accepted, whose amount is accepted as \<open>a'\<close>, and whose description is absent
  or empty.  If \<open>a' > 1000000\<close> the answer is 400 with one error, on the field
  \<^verbatim>\<open>description\<close>, and the table is unchanged.  If \<open>0 < a' \<le> 1000000\<close> the expense is
  created.
\<close>

theorem large_amount_requires_description:
  assumes "data_title d = Some t" and "title_field fc t = Inr t'"
    and "data_amount d = Some a" and "amount_field fc a = Inr a'" and "0 < a'"
    and "data_category d = Some c" and "c \<in> set (map fst CATEGORY_CHOICES)"
    and "data_date d = Some dt" and "dt \<le> today"
    and "data_description d = None
         \<or> (\<exists>x y. data_description d = Some x \<and> description_field fc x = Inr y
                 \<and> (y = None \<or> y = Some []))"
  shows "(1000000 < a' \<longrightarrow>
            create fc new_pk now today objects (Some u) d
              = (HTTP_400_BAD_REQUEST [(''description'', description_required)], objects))
       \<and> (a' \<le> 1000000 \<longrightarrow>
            (\<exists>obj. create fc new_pk now today objects (Some u) d
                      = (HTTP_201_CREATED obj, objects @ [obj])
                    \<and> amount obj = a' \<and> user obj = u))"
proof -
  from to_internal_value_complete [OF assms] obtain ds where
    tv: "to_internal_value fc False today d =
           Inr \<lparr> attrs_title = Some t', attrs_amount = Some a', attrs_category = Some c,
                 attrs_description = ds, attrs_date = Some dt \<rparr>"
    and ds: "ds = None \<or> ds = Some None \<or> ds = Some (Some [])"
    by blast
  from ds \<open>0 < a'\<close> show ?thesis
    by (auto simp: create_def run_validation_def tv validate_def save_new_def)
qed

theorem large_amount_requires_description_witness:
  "create fields_accept 17 5 100 [gasto_1] (Some 10) gasto_grande
     = (HTTP_400_BAD_REQUEST [(''description'', description_required)], [gasto_1])
   \<and> (\<exists>obj. create fields_accept 17 5 100 [gasto_1] (Some 10)
               (gasto_grande \<lparr> data_amount := Some 1000000 \<rparr>)
               = (HTTP_201_CREATED obj, [gasto_1] @ [obj])
             \<and> amount obj = 1000000 \<and> user obj = 10)"
  using large_amount_requires_description [where d = gasto_grande and t = "''Gasto Grande''"
      and fc = fields_accept and t' = "''Gasto Grande''" and a = 2000000 and a' = 2000000
      and c = "''ELECTRONICS''" and dt = 100 and today = 100 and new_pk = 17 and now = 5
      and objects = "[gasto_1]" and u = 10]
    large_amount_requires_description [where d = "gasto_grande \<lparr> data_amount := Some 1000000 \<rparr>"
      and t = "''Gasto Grande''" and fc = fields_accept and t' = "''Gasto Grande''"
      and a = 1000000 and a' = 1000000 and c = "''ELECTRONICS''" and dt = 100 and today = 100
      and new_pk = 17 and now = 5 and objects = "[gasto_1]" and u = 10]
  by (simp add: gasto_grande_def fields_accept_def CATEGORY_CHOICES_def)

text \<open>
  Claim C10.  The owner of an expense whose stored description is not empty sends a
  PATCH with an amount, which the amount field accepts as \<open>a' > 1000000\<close>, and without
  the key \<^verbatim>\<open>description\<close>; a title, a category or a date, if sent, is accepted.  The
  answer is 400 with the error on the field \<^verbatim>\<open>description\<close>, and the table is unchanged:
  the check reads the submitted fields, not the stored row.
\<close>

theorem patch_amount_ignores_stored_description:
  assumes "get_object sf today objects u q k = Inr obj"
    and "description obj = Some s" and "s \<noteq> []"
    and "data_description d = None"
    and "data_amount d = Some a" and "amount_field fc a = Inr a'" and "1000000 < a'"
    and "data_title d = None \<or> (\<exists>t t'. data_title d = Some t \<and> title_field fc t = Inr t')"
    and "data_category d = None
         \<or> (\<exists>c. data_category d = Some c \<and> c \<in> set (map fst CATEGORY_CHOICES))"
    and "data_date d = None \<or> (\<exists>dt. data_date d = Some dt \<and> dt \<le> today)"
  shows "detail fc sf now today objects (Some u) q k (Partial_update d)
           = (HTTP_400_BAD_REQUEST [(''description'', description_required)], objects)"
proof -
  have t: "field_error ''title'' (run_field True True (title_field fc) Inr (data_title d)) = []"
    using assms(8) by (auto simp: run_field_def field_error_def)
  have c: "field_error ''category'' (run_field True True category_field Inr (data_category d))
             = []"
    using assms(9) by (force simp: run_field_def field_error_def category_field_def)
  have dt: "field_error ''date'' (run_field True True Inr (validate_date today) (data_date d))
              = []"
    using assms(10) by (auto simp: run_field_def field_error_def validate_date_def)
  have am: "run_field True True (amount_field fc) validate_amount (data_amount d)
              = Some (Inr a')"
    using assms(5,6,7) by (simp add: run_field_def validate_amount_def)
  have ds: "run_field True False (description_field fc) Inr (data_description d) = None"
    using assms(4) by (simp add: run_field_def)
  have "\<exists>va. to_internal_value fc True today d = Inr va
          \<and> attrs_amount va = Some a' \<and> attrs_description va = None"
    unfolding to_internal_value_def Let_def t c dt am ds
    by (simp add: field_error_def field_value_def)
  then obtain va where "to_internal_value fc True today d = Inr va"
    and "attrs_amount va = Some a'" and "attrs_description va = None" by blast
  with assms(7) have "run_validation fc True today d
                        = Inl [(''description'', description_required)]"
    by (simp add: run_validation_def validate_def)
  with assms(1) show ?thesis by (simp add: detail_def)
qed

theorem patch_amount_ignores_stored_description_witness:
  "get_object match_any 100 [gasto_1, gasto_user_2] 20 no_query 14 = Inr gasto_user_2
   \<and> description gasto_user_2 = Some ''Compra''
   \<and> detail fields_accept match_any 5 100 [gasto_1, gasto_user_2] (Some 20) no_query 14
        (Partial_update title_and_amount)
       = (HTTP_400_BAD_REQUEST [(''description'', description_required)],
          [gasto_1, gasto_user_2])
   \<and> detail fields_accept match_any 5 100 [gasto_1, gasto_user_2] (Some 20) no_query 14
        (Partial_update (amount_only 2000000))
       = (HTTP_400_BAD_REQUEST [(''description'', description_required)],
          [gasto_1, gasto_user_2])"
proof -
  have c: "clean_query no_query = Inr no_params"
    by (simp add: clean_query_def clean_choice_def clean_value_def field_error_def cleaned_def
        no_query_def no_params_def)
  have h: "get_object match_any 100 [gasto_1, gasto_user_2] 20 no_query 14 = Inr gasto_user_2"
    by (simp add: get_object_def filter_backends_def c filter_queryset_def no_params_def
        apply_filter_def get_queryset_def has_object_permission_def gasto_1_def
        gasto_user_2_def)
      (simp add: no_query_def has_object_permission_def)
  have d: "description gasto_user_2 = Some ''Compra''" by (simp add: gasto_user_2_def)
  have n: "''Compra'' \<noteq> []" by simp
  have 1: "detail fields_accept match_any 5 100 [gasto_1, gasto_user_2] (Some 20) no_query 14
        (Partial_update title_and_amount)
       = (HTTP_400_BAD_REQUEST [(''description'', description_required)],
          [gasto_1, gasto_user_2])"
    by (rule patch_amount_ignores_stored_description [OF h d n, where a = 2000000
          and a' = 2000000])
      (simp_all add: title_and_amount_def fields_accept_def)
  have 2: "detail fields_accept match_any 5 100 [gasto_1, gasto_user_2] (Some 20) no_query 14
        (Partial_update (amount_only 2000000))
       = (HTTP_400_BAD_REQUEST [(''description'', description_required)],
          [gasto_1, gasto_user_2])"
    by (rule patch_amount_ignores_stored_description [OF h d n, where a = 2000000
          and a' = 2000000])
      (simp_all add: amount_only_def fields_accept_def)
  from h d 1 2 show ?thesis by blast
qed

section \<open>Properties of the aggregation\<close>

lemma or_0_Sum_amount: "or_0 (Sum_amount qs) = sum_list (map amount qs)"
  by (simp add: or_0_def Sum_amount_def)

lemma by_category_unfold:
  "fold (category_step qs) CATEGORY_CHOICES [] =
     map (\<lambda>c. (snd c, sum_list (map amount (filter (\<lambda>e. category e = fst c) qs))))
       CATEGORY_CHOICES"
  by (simp add: CATEGORY_CHOICES_def category_step_def or_0_Sum_amount)

lemma labels_distinct: "distinct (map snd CATEGORY_CHOICES)"
  by (simp add: CATEGORY_CHOICES_def)

lemma choices_length: "length CATEGORY_CHOICES = 7"
  by (simp add: CATEGORY_CHOICES_def)

lemma category_partition:
  "sum_list (map (\<lambda>c. sum_list (map amount (filter (\<lambda>e. category e = fst c) qs)))
           CATEGORY_CHOICES)
     = sum_list (map amount (filter (\<lambda>e. category e \<in> set (map fst CATEGORY_CHOICES)) qs))"
proof (induction qs)
  case Nil
  show ?case by (simp add: CATEGORY_CHOICES_def)
next
  case (Cons x xs)
  show ?case
  proof (cases "category x \<in> set (map fst CATEGORY_CHOICES)")
    case True
    then consider "category x = ''GROCERIES''" | "category x = ''LEISURE''"
      | "category x = ''ELECTRONICS''" | "category x = ''UTILITIES''"
      | "category x = ''CLOTHING''" | "category x = ''HEALTH''" | "category x = ''OTHERS''"
      by (auto simp: CATEGORY_CHOICES_def)
    then show ?thesis
      using Cons.IH by cases (simp_all add: CATEGORY_CHOICES_def)
  next
    case False
    then have ne: "\<And>c. c \<in> set CATEGORY_CHOICES \<Longrightarrow> category x \<noteq> fst c"
      by auto
    have "map (\<lambda>c. sum_list (map amount (filter (\<lambda>e. category e = fst c) (x # xs))))
                 CATEGORY_CHOICES
             = map (\<lambda>c. sum_list (map amount (filter (\<lambda>e. category e = fst c) xs)))
                 CATEGORY_CHOICES"
      by (rule map_cong) (simp_all add: ne)
    then have "sum_list (map (\<lambda>c. sum_list (map amount
                   (filter (\<lambda>e. category e = fst c) (x # xs)))) CATEGORY_CHOICES)
             = sum_list (map (\<lambda>c. sum_list (map amount
                   (filter (\<lambda>e. category e = fst c) xs))) CATEGORY_CHOICES)"
      by (rule arg_cong)
    also have "\<dots> = sum_list (map amount
                   (filter (\<lambda>e. category e \<in> set (map fst CATEGORY_CHOICES)) xs))"
      by (rule Cons.IH)
    also have "\<dots> = sum_list (map amount
                   (filter (\<lambda>e. category e \<in> set (map fst CATEGORY_CHOICES)) (x # xs)))"
      using False by simp
    finally show ?thesis .
  qed
qed

lemma round_half_even_bound: "\<bar>of_int (round_half_even y) - y\<bar> \<le> 1 / 2"
proof -
  define f where "f = \<lfloor>y\<rfloor>"
  define d where "d = y - of_int f"
  have 1: "0 \<le> d" and 2: "d < 1"
    unfolding d_def f_def by linarith+
  have r: "round_half_even y =
             (if d < 1 / 2 then f else if 1 / 2 < d then f + 1 else if even f then f else f + 1)"
    by (simp add: round_half_even_def Let_def f_def d_def)
  have a: "of_int f - y = - d" and b: "of_int (f + 1) - y = 1 - d"
    by (simp_all add: d_def)
  show ?thesis
  proof (cases "d < 1 / 2")
    case True
    with r have e: "round_half_even y = f" by simp
    show ?thesis unfolding e using a 1 True by linarith
  next
    case False
    show ?thesis
    proof (cases "1 / 2 < d")
      case True
      with r False have e: "round_half_even y = f + 1" by simp
      show ?thesis unfolding e using b 2 True by linarith
    next
      case F2: False
      with False have h: "d = 1 / 2" by linarith
      from a h have a': "\<bar>of_int f - y\<bar> = 1 / 2" by linarith
      from b h have b': "\<bar>of_int (f + 1) - y\<bar> = 1 / 2" by linarith
      from h r have "round_half_even y = f \<or> round_half_even y = f + 1" by simp
      with a' b' show ?thesis by auto
    qed
  qed
qed

lemma round_half_even_of_int: "round_half_even (of_int k) = k"
  by (simp add: round_half_even_def)

lemma quantize_bound:
  assumes "quantize v = Some q"
  shows "\<bar>q - v\<bar> \<le> 1 / 200"
proof -
  from assms have q: "q = of_int (round_half_even (v * 100)) / 100"
    by (auto simp: quantize_def Let_def split: if_splits)
  have "\<bar>of_int (round_half_even (v * 100)) - v * 100\<bar> \<le> 1 / 2"
    by (rule round_half_even_bound)
  then show ?thesis unfolding q by (simp add: abs_if field_simps split: if_splits)
qed

lemma quantize_cents:
  assumes "quantize v = Some q" and "v = of_int k / 100"
  shows "q = v"
  using assms by (auto simp: quantize_def Let_def round_half_even_of_int split: if_splits)

lemma quantize_0: "quantize 0 = Some 0"
  by (simp add: quantize_def round_half_even_def)

lemma sum_cents:
  assumes "\<forall>e \<in> set qs. \<exists>k::int. amount e = of_int k / 100"
  shows "\<exists>k::int. sum_list (map amount qs) = of_int k / 100"
  using assms
proof (induction qs)
  case Nil
  show ?case by (intro exI [of _ 0]) simp
next
  case (Cons x xs)
  then obtain k j :: int where "amount x = of_int k / 100"
    and "sum_list (map amount xs) = of_int j / 100" by auto
  then have "sum_list (map amount (x # xs)) = of_int (k + j) / 100"
    by (simp add: add_divide_distrib)
  then show ?case by blast
qed

text \<open>
  Claim C8.  For a caller who owns no expense, the statistics are a count of 0, a total
  of 0 and an average of 0 (numbers, not \<^verbatim>\<open>None\<close>), and \<^verbatim>\<open>by_category\<close> holds the
  label of each of the seven categories, once, with the value 0.
\<close>

theorem stats_empty:
  assumes "get_queryset objects u = []"
  shows "\<exists>s. stats_view database_avg objects (Some u) = HTTP_200_OK s
           \<and> total_expenses s = 0 \<and> total_amount s = 0 \<and> average_amount s = 0
           \<and> by_category s = map (\<lambda>c. (snd c, 0)) CATEGORY_CHOICES
           \<and> length (by_category s) = 7
           \<and> distinct (map fst (by_category s))"
  using assms labels_distinct
  by (simp add: stats_view_def ExpenseStatsSerializer_def quantize_0 stats_def Count_id_def
      Sum_amount_def Avg_amount_def by_category_unfold choices_length comp_def)

theorem stats_empty_witness:
  "get_queryset [gasto_1, gasto_2, gasto_3] 20 = []
   \<and> (\<exists>s. stats_view avg_13_places [gasto_1, gasto_2, gasto_3] (Some 20) = HTTP_200_OK s
           \<and> total_expenses s = 0 \<and> total_amount s = 0 \<and> average_amount s = 0
           \<and> by_category s = map (\<lambda>c. (snd c, 0)) CATEGORY_CHOICES
           \<and> length (by_category s) = 7
           \<and> distinct (map fst (by_category s)))"
proof -
  have h: "get_queryset [gasto_1, gasto_2, gasto_3] 20 = []"
    by (simp add: get_queryset_def gasto_1_def gasto_2_def gasto_3_def)
  show ?thesis using h stats_empty [OF h, of avg_13_places] by simp
qed

lemma stats_view_200:
  assumes "stats_view database_avg objects (Some u) = HTTP_200_OK s"
  shows "quantize (total_amount (stats database_avg objects u)) = Some (total_amount s)
       \<and> quantize (average_amount (stats database_avg objects u)) = Some (average_amount s)
       \<and> total_expenses s = total_expenses (stats database_avg objects u)
       \<and> by_category s = by_category (stats database_avg objects u)"
  using assms
  by (auto simp: stats_view_def ExpenseStatsSerializer_def split: option.splits)

text \<open>
  Claim C9, as the code has it.  When the statistics are answered for a caller with
  expenses \<open>qs\<close>: the count is their number and the total is their sum, quantized to two
  decimals.  The values of \<^verbatim>\<open>by_category\<close> add up to the amounts of the expenses whose
  category is one of the seven codes; this is the total when every expense has such a
  category and every amount is a number of cents.  The average is 0 when there is no
  expense; otherwise it is the average of the database rounded half to even to two
  decimals, so that it is within 0.005 of that average, and is as far from the sum
  divided by the count as the average of the database is, and 0.005 more at most.
\<close>

theorem stats_rounded:
  assumes "stats_view database_avg objects (Some u) = HTTP_200_OK s"
  shows "total_expenses s = length (get_queryset objects u)
    \<and> quantize (sum_list (map amount (get_queryset objects u))) = Some (total_amount s)
    \<and> sum_list (map snd (by_category s))
        = sum_list (map amount (filter (\<lambda>e. category e \<in> set (map fst CATEGORY_CHOICES))
                                   (get_queryset objects u)))
    \<and> (set (map category (get_queryset objects u)) \<subseteq> set (map fst CATEGORY_CHOICES)
         \<and> (\<forall>e \<in> set (get_queryset objects u). \<exists>k::int. amount e = of_int k / 100)
         \<longrightarrow> sum_list (map snd (by_category s)) = total_amount s)
    \<and> (get_queryset objects u = [] \<longrightarrow> average_amount s = 0)
    \<and> (get_queryset objects u \<noteq> [] \<longrightarrow>
          quantize (database_avg (sum_list (map amount (get_queryset objects u)))
                      (length (get_queryset objects u))) = Some (average_amount s)
          \<and> \<bar>average_amount s
               - database_avg (sum_list (map amount (get_queryset objects u)))
                   (length (get_queryset objects u))\<bar> \<le> 1 / 200
          \<and> \<bar>average_amount s
               - sum_list (map amount (get_queryset objects u))
                   / of_nat (length (get_queryset objects u))\<bar>
              \<le> 1 / 200
                + \<bar>database_avg (sum_list (map amount (get_queryset objects u)))
                     (length (get_queryset objects u))
                   - sum_list (map amount (get_queryset objects u))
                       / of_nat (length (get_queryset objects u))\<bar>)"
proof -
  let ?qs = "get_queryset objects u"
  let ?sum = "sum_list (map amount ?qs)"
  let ?avg = "database_avg ?sum (length ?qs)"
  let ?st = "stats database_avg objects u"
  note v = stats_view_200 [OF assms]
  have t: "total_amount ?st = ?sum"
    by (simp add: stats_def Let_def Sum_amount_def)
  have n: "total_expenses s = length ?qs"
    using v by (simp add: stats_def Let_def Count_id_def)
  have qt: "quantize ?sum = Some (total_amount s)"
    using v t by simp
  have bc: "sum_list (map snd (by_category s))
        = sum_list (map amount (filter (\<lambda>e. category e \<in> set (map fst CATEGORY_CHOICES)) ?qs))"
    using v category_partition [of ?qs]
    by (simp add: stats_def Let_def by_category_unfold comp_def)
  have all: "set (map category ?qs) \<subseteq> set (map fst CATEGORY_CHOICES)
         \<and> (\<forall>e \<in> set ?qs. \<exists>k::int. amount e = of_int k / 100)
         \<longrightarrow> sum_list (map snd (by_category s)) = total_amount s"
  proof
    assume h: "set (map category ?qs) \<subseteq> set (map fst CATEGORY_CHOICES)
         \<and> (\<forall>e \<in> set ?qs. \<exists>k::int. amount e = of_int k / 100)"
    then have "filter (\<lambda>e. category e \<in> set (map fst CATEGORY_CHOICES)) ?qs = ?qs"
      by (intro filter_True) auto
    with bc have b: "sum_list (map snd (by_category s)) = ?sum" by simp
    from h obtain k :: int where "?sum = of_int k / 100"
      using sum_cents [of ?qs] by blast
    from quantize_cents [OF qt this] b
    show "sum_list (map snd (by_category s)) = total_amount s" by simp
  qed
  have e: "?qs = [] \<longrightarrow> average_amount s = 0"
  proof
    assume "?qs = []"
    then have "average_amount ?st = 0"
      by (simp add: stats_def Let_def Avg_amount_def)
    with v show "average_amount s = 0" by (simp add: quantize_0)
  qed
  have a: "?qs \<noteq> [] \<longrightarrow>
          quantize ?avg = Some (average_amount s)
          \<and> \<bar>average_amount s - ?avg\<bar> \<le> 1 / 200
          \<and> \<bar>average_amount s - ?sum / of_nat (length ?qs)\<bar>
              \<le> 1 / 200 + \<bar>?avg - ?sum / of_nat (length ?qs)\<bar>"
  proof
    assume "?qs \<noteq> []"
    then have "average_amount ?st = ?avg"
      by (simp add: stats_def Let_def Avg_amount_def)
    with v have q: "quantize ?avg = Some (average_amount s)" by simp
    from quantize_bound [OF q] have b: "\<bar>average_amount s - ?avg\<bar> \<le> 1 / 200" .
    have "\<bar>average_amount s - ?sum / of_nat (length ?qs)\<bar>
            \<le> \<bar>average_amount s - ?avg\<bar> + \<bar>?avg - ?sum / of_nat (length ?qs)\<bar>"
      by linarith
    with b have "\<bar>average_amount s - ?sum / of_nat (length ?qs)\<bar>
              \<le> 1 / 200 + \<bar>?avg - ?sum / of_nat (length ?qs)\<bar>"
      by linarith
    with q b show "quantize ?avg = Some (average_amount s)
          \<and> \<bar>average_amount s - ?avg\<bar> \<le> 1 / 200
          \<and> \<bar>average_amount s - ?sum / of_nat (length ?qs)\<bar>
              \<le> 1 / 200 + \<bar>?avg - ?sum / of_nat (length ?qs)\<bar>"
      by blast
  qed
  from n qt bc all e a show ?thesis by blast
qed

lemma avg_31_3: "avg_13_places 31 (Suc (Suc (Suc 0))) = 103333333333333 / 10000000000000"
  by (simp add: avg_13_places_def floor_eq_iff)

lemma quantize_avg_31_3: "quantize (103333333333333 / 10000000000000) = Some (1033 / 100)"
proof -
  have f: "\<lfloor>(103333333333333 :: rat) / 100000000000\<rfloor> = 1033"
    by (simp add: floor_eq_iff)
  have "round_half_even (103333333333333 / 100000000000) = 1033"
    by (simp add: round_half_even_def Let_def f)
  then show ?thesis
    by (simp add: quantize_def Let_def)
qed

lemma quantize_31: "quantize 31 = Some 31"
  by (simp add: quantize_def round_half_even_def Let_def)

lemma stats_diez:
  "stats_view avg_13_places [diez_a, diez_b, once] (Some 10) =
     HTTP_200_OK
       \<lparr> total_expenses = 3, total_amount = 31, average_amount = 1033 / 100,
         by_category =
           [(''Comestibles'', 20), (''Entretenimiento'', 11),
            (''Electr'' @ [CHR 0xC3, CHR 0xB3] @ ''nicos'', 0),
            (''Servicios P'' @ [CHR 0xC3, CHR 0xBA] @ ''blicos'', 0),
            (''Ropa'', 0), (''Salud'', 0), (''Otros'', 0)] \<rparr>"
proof -
  have q: "get_queryset [diez_a, diez_b, once] 10 = [diez_a, diez_b, once]"
    by (simp add: get_queryset_def diez_a_def diez_b_def once_def)
  have s: "stats avg_13_places [diez_a, diez_b, once] 10 =
       \<lparr> total_expenses = 3, total_amount = 31, average_amount = 103333333333333 / 10000000000000,
         by_category =
           [(''Comestibles'', 20), (''Entretenimiento'', 11),
            (''Electr'' @ [CHR 0xC3, CHR 0xB3] @ ''nicos'', 0),
            (''Servicios P'' @ [CHR 0xC3, CHR 0xBA] @ ''blicos'', 0),
            (''Ropa'', 0), (''Salud'', 0), (''Otros'', 0)] \<rparr>"
    unfolding stats_def Let_def by_category_unfold q
    by (simp add: diez_a_def diez_b_def once_def Count_id_def Sum_amount_def Avg_amount_def
        CATEGORY_CHOICES_def avg_31_3 numeral_3_eq_3)
  show ?thesis
    by (simp add: stats_view_def ExpenseStatsSerializer_def s quantize_31 quantize_avg_31_3)
qed

theorem stats_rounded_witness:
  "stats_view avg_13_places [diez_a, diez_b, once] (Some 10) =
     HTTP_200_OK
       \<lparr> total_expenses = 3, total_amount = 31, average_amount = 1033 / 100,
         by_category =
           [(''Comestibles'', 20), (''Entretenimiento'', 11),
            (''Electr'' @ [CHR 0xC3, CHR 0xB3] @ ''nicos'', 0),
            (''Servicios P'' @ [CHR 0xC3, CHR 0xBA] @ ''blicos'', 0),
            (''Ropa'', 0), (''Salud'', 0), (''Otros'', 0)] \<rparr>
   \<and> quantize (sum_list (map amount (get_queryset [diez_a, diez_b, once] 10))) = Some 31
   \<and> quantize (avg_13_places (sum_list (map amount (get_queryset [diez_a, diez_b, once] 10)))
                 (length (get_queryset [diez_a, diez_b, once] 10))) = Some (1033 / 100)"
proof -
  have ne: "get_queryset [diez_a, diez_b, once] 10 \<noteq> []"
    by (simp add: get_queryset_def diez_a_def)
  note r = stats_rounded [OF stats_diez]
  from r have "quantize (sum_list (map amount (get_queryset [diez_a, diez_b, once] 10)))
                 = Some (total_amount
       \<lparr> total_expenses = 3, total_amount = 31, average_amount = 1033 / 100,
         by_category =
           [(''Comestibles'', 20), (''Entretenimiento'', 11),
            (''Electr'' @ [CHR 0xC3, CHR 0xB3] @ ''nicos'', 0),
            (''Servicios P'' @ [CHR 0xC3, CHR 0xBA] @ ''blicos'', 0),
            (''Ropa'', 0), (''Salud'', 0), (''Otros'', 0)] \<rparr>)"
    by blast
  then have 1: "quantize (sum_list (map amount (get_queryset [diez_a, diez_b, once] 10)))
                  = Some 31"
    by simp
  from r ne have "quantize (avg_13_places
                     (sum_list (map amount (get_queryset [diez_a, diez_b, once] 10)))
                     (length (get_queryset [diez_a, diez_b, once] 10)))
                 = Some (average_amount
       \<lparr> total_expenses = 3, total_amount = 31, average_amount = 1033 / 100,
         by_category =
           [(''Comestibles'', 20), (''Entretenimiento'', 11),
            (''Electr'' @ [CHR 0xC3, CHR 0xB3] @ ''nicos'', 0),
            (''Servicios P'' @ [CHR 0xC3, CHR 0xBA] @ ''blicos'', 0),
            (''Ropa'', 0), (''Salud'', 0), (''Otros'', 0)] \<rparr>)"
    by blast
  then have 2: "quantize (avg_13_places
                     (sum_list (map amount (get_queryset [diez_a, diez_b, once] 10)))
                     (length (get_queryset [diez_a, diez_b, once] 10)))
                 = Some (1033 / 100)"
    by simp
  from stats_diez 1 2 show ?thesis by blast
qed

text \<open>
  Claim C9 as stated fails: for expenses of 10, 10 and 11 the answer has the total 31,
  the count 3 and the average 10.33, which is not 31 divided by 3.
\<close>

theorem stats_average_counterexample:
  "stats_view avg_13_places [diez_a, diez_b, once] (Some 10) =
     HTTP_200_OK
       \<lparr> total_expenses = 3, total_amount = 31, average_amount = 1033 / 100,
         by_category =
           [(''Comestibles'', 20), (''Entretenimiento'', 11),
            (''Electr'' @ [CHR 0xC3, CHR 0xB3] @ ''nicos'', 0),
            (''Servicios P'' @ [CHR 0xC3, CHR 0xBA] @ ''blicos'', 0),
            (''Ropa'', 0), (''Salud'', 0), (''Otros'', 0)] \<rparr>
   \<and> (1033 / 100 :: rat) \<noteq> 31 / 3"
  using stats_diez by simp

section \<open>Properties of the token service\<close>

lemma logout_grows: "set blacklist \<subseteq> set (snd (logout decode now blacklist u b))"
  by (auto simp: logout_def blacklist_token_def split: option.splits sum.splits)

lemma token_step_grows: "set blacklist \<subseteq> set (token_step decode blacklist r)"
  using logout_grows by (auto simp: token_step_def split: token_request.splits)

lemma token_run_grows: "set blacklist \<subseteq> set (token_run decode blacklist rs)"
  unfolding token_run_def
proof (induction rs arbitrary: blacklist)
  case Nil
  show ?case by simp
next
  case (Cons r rs)
  have "set blacklist \<subseteq> set (token_step decode blacklist r)"
    by (rule token_step_grows)
  also have "\<dots> \<subseteq> set (foldl (token_step decode) (token_step decode blacklist r) rs)"
    by (rule Cons.IH)
  finally show ?case by simp
qed

lemma logout_blacklists:
  assumes "logout decode now blacklist u (Some raw) = (HTTP_205_RESET_CONTENT, blacklist')"
  shows "\<exists>t. decode raw = Some t \<and> jti t \<in> set blacklist'"
  using assms
  by (auto simp: logout_def RefreshToken_def blacklist_token_def
      split: option.splits sum.splits if_splits)

text \<open>
  Claim C6.  A logout that answers 205 for a refresh token revokes it: after any further
  sequence of logout, refresh and issue requests, at any time, a refresh request with
  that token is rejected and mints no access token.
\<close>

theorem revoked_token_never_refreshes:
  assumes "logout decode now blacklist u (Some raw) = (HTTP_205_RESET_CONTENT, blacklist')"
  shows "\<exists>e. refreshAccess decode lifetime now' (token_run decode blacklist' rs) raw = Inl e"
proof -
  from logout_blacklists [OF assms] obtain t where
    t: "decode raw = Some t" and b: "jti t \<in> set blacklist'" by blast
  from b have "jti t \<in> set (token_run decode blacklist' rs)"
    using token_run_grows by blast
  with t show ?thesis
    by (simp add: refreshAccess_def RefreshToken_def)
qed

lemma logout_issued:
  "logout decode_issued 7 [] (Some 10) (Some ''refresh-1'') = (HTTP_205_RESET_CONTENT, [''jti-1''])"
  by (simp add: logout_def RefreshToken_def blacklist_token_def decode_issued_def
      issued_token_def)

lemma refresh_before_logout:
  "refreshAccess decode_issued 300 6 [] ''refresh-1'' = Inr (10, 306)"
  by (simp add: refreshAccess_def RefreshToken_def decode_issued_def issued_token_def)

theorem revoked_token_never_refreshes_witness:
  "refreshAccess decode_issued 300 6 [] ''refresh-1'' = Inr (10, 306)
   \<and> logout decode_issued 7 [] (Some 10) (Some ''refresh-1'')
       = (HTTP_205_RESET_CONTENT, [''jti-1''])
   \<and> (\<exists>e. refreshAccess decode_issued 300 9
             (token_run decode_issued [''jti-1'']
                [(8, Issue_request 10), (8, Refresh_request ''refresh-1'')])
             ''refresh-1'' = Inl e)"
  using refresh_before_logout logout_issued
    revoked_token_never_refreshes [OF logout_issued, where lifetime = 300 and now' = 9
      and rs = "[(8, Issue_request 10), (8, Refresh_request ''refresh-1'')]"]
  by simp

section \<open>Properties of the credential store\<close>

lemma create_user_Inr:
  assumes "create_user new_pk now users email' password' extra = Inr (u, us)"
  shows "is_staff u = (case kw_is_staff extra of None \<Rightarrow> False | Some b \<Rightarrow> b)
       \<and> is_superuser u = (case kw_is_superuser extra of None \<Rightarrow> False | Some b \<Rightarrow> b)
       \<and> is_active u = (case kw_is_active extra of None \<Rightarrow> True | Some b \<Rightarrow> b)
       \<and> us = users @ [u]"
proof (cases email')
  case None
  with assms show ?thesis by (simp add: create_user_def)
next
  case (Some e)
  with assms have ne: "e \<noteq> []" by (auto simp: create_user_def)
  from assms Some ne show ?thesis
    by (simp add: create_user_def Let_def split: if_splits) auto
qed

text \<open>
  Claim C3, as the code has it.  \<^verbatim>\<open>create_superuser\<close> fails with a \<^verbatim>\<open>ValueError\<close>,
  and creates no user, when \<^verbatim>\<open>is_staff\<close> or \<^verbatim>\<open>is_superuser\<close> is passed as false.
  Otherwise it is \<^verbatim>\<open>create_user\<close> with \<^verbatim>\<open>is_staff\<close> and \<^verbatim>\<open>is_superuser\<close> true and
  with \<^verbatim>\<open>is_active\<close> as passed, true when it is not passed.  A user it creates is staff
  and superuser, and is active unless \<^verbatim>\<open>is_active\<close> was passed as false.
\<close>

theorem create_superuser_flags:
  "(kw_is_staff extra = Some False \<or> kw_is_superuser extra = Some False \<longrightarrow>
      (\<exists>msg. create_superuser new_pk now users email' password' extra = Inl (ValueError msg)))
   \<and> (kw_is_staff extra \<noteq> Some False \<and> kw_is_superuser extra \<noteq> Some False \<longrightarrow>
        create_superuser new_pk now users email' password' extra
          = create_user new_pk now users email' password'
              (extra \<lparr> kw_is_staff := Some True, kw_is_superuser := Some True,
                       kw_is_active := Some (kw_is_active extra \<noteq> Some False) \<rparr>))
   \<and> (\<forall>u us. create_superuser new_pk now users email' password' extra = Inr (u, us) \<longrightarrow>
          is_staff u \<and> is_superuser u \<and> is_active u = (kw_is_active extra \<noteq> Some False)
          \<and> us = users @ [u])"
proof -
  have a: "kw_is_staff extra = Some False \<or> kw_is_superuser extra = Some False \<longrightarrow>
      (\<exists>msg. create_superuser new_pk now users email' password' extra = Inl (ValueError msg))"
    by (auto simp: create_superuser_def setdefault_def Let_def split: option.splits)
  have b: "kw_is_staff extra \<noteq> Some False \<and> kw_is_superuser extra \<noteq> Some False \<longrightarrow>
        create_superuser new_pk now users email' password' extra
          = create_user new_pk now users email' password'
              (extra \<lparr> kw_is_staff := Some True, kw_is_superuser := Some True,
                       kw_is_active := Some (kw_is_active extra \<noteq> Some False) \<rparr>)"
  proof
    assume h: "kw_is_staff extra \<noteq> Some False \<and> kw_is_superuser extra \<noteq> Some False"
    then have s: "setdefault (kw_is_staff extra) True = Some True"
      and p: "setdefault (kw_is_superuser extra) True = Some True"
      by (auto simp: setdefault_def split: option.splits)
    have c: "setdefault (kw_is_active extra) True = Some (kw_is_active extra \<noteq> Some False)"
      by (auto simp: setdefault_def split: option.splits)
    show "create_superuser new_pk now users email' password' extra
          = create_user new_pk now users email' password'
              (extra \<lparr> kw_is_staff := Some True, kw_is_superuser := Some True,
                       kw_is_active := Some (kw_is_active extra \<noteq> Some False) \<rparr>)"
      by (simp add: create_superuser_def Let_def s p c)
  qed
  have c: "\<forall>u us. create_superuser new_pk now users email' password' extra = Inr (u, us) \<longrightarrow>
          is_staff u \<and> is_superuser u \<and> is_active u = (kw_is_active extra \<noteq> Some False)
          \<and> us = users @ [u]"
  proof (intro allI impI)
    fix u us
    assume r: "create_superuser new_pk now users email' password' extra = Inr (u, us)"
    with a have "kw_is_staff extra \<noteq> Some False \<and> kw_is_superuser extra \<noteq> Some False"
      by auto
    with b r have "create_user new_pk now users email' password'
              (extra \<lparr> kw_is_staff := Some True, kw_is_superuser := Some True,
                       kw_is_active := Some (kw_is_active extra \<noteq> Some False) \<rparr>) = Inr (u, us)"
      by simp
    from create_user_Inr [OF this]
    show "is_staff u \<and> is_superuser u \<and> is_active u = (kw_is_active extra \<noteq> Some False)
          \<and> us = users @ [u]"
      by simp
  qed
  from a b c show ?thesis by blast
qed

lemma create_superuser_admin:
  "create_superuser 30 5 [] (Some ''admin@example.com'') ''AdminPassword123!'' admin_extra
     = Inr (admin_user, [admin_user])"
  by (simp add: create_superuser_def create_user_def setdefault_def admin_extra_def
      admin_user_def normalize_email_def strip_def is_space_def lower_char_def Let_def)

theorem create_superuser_flags_witness:
  "(\<exists>msg. create_superuser 30 5 [] (Some ''admin@example.com'') ''AdminPassword123!''
               (admin_extra \<lparr> kw_is_staff := Some False \<rparr>) = Inl (ValueError msg))
   \<and> create_superuser 30 5 [] (Some ''admin@example.com'') ''AdminPassword123!'' admin_extra
       = Inr (admin_user, [admin_user])
   \<and> is_staff admin_user \<and> is_superuser admin_user \<and> is_active admin_user"
proof -
  have f: "kw_is_staff (admin_extra \<lparr> kw_is_staff := Some False \<rparr>) = Some False"
    by simp
  have n: "kw_is_active admin_extra \<noteq> Some False"
    by (simp add: admin_extra_def)
  have 1: "\<exists>msg. create_superuser 30 5 [] (Some ''admin@example.com'') ''AdminPassword123!''
               (admin_extra \<lparr> kw_is_staff := Some False \<rparr>) = Inl (ValueError msg)"
    using f create_superuser_flags [where extra = "admin_extra \<lparr> kw_is_staff := Some False \<rparr>"
      and new_pk = 30 and now = 5 and users = "[]" and email' = "Some ''admin@example.com''"
      and password' = "''AdminPassword123!''"]
    by blast
  have 2: "is_staff admin_user \<and> is_superuser admin_user \<and> is_active admin_user"
    using n create_superuser_admin
      create_superuser_flags [where extra = admin_extra and new_pk = 30 and now = 5
        and users = "[]" and email' = "Some ''admin@example.com''"
        and password' = "''AdminPassword123!''"]
    by blast
  from 1 2 create_superuser_admin show ?thesis by blast
qed

text \<open>
  Claim C3 as stated fails: with \<^verbatim>\<open>is_active=False\<close> passed, \<^verbatim>\<open>create_superuser\<close>
  raises nothing and stores a superuser that is not active.
\<close>

theorem create_superuser_inactive_counterexample:
  "create_superuser 30 5 [] (Some ''admin@example.com'') ''AdminPassword123!''
       (admin_extra \<lparr> kw_is_active := Some False \<rparr>)
     = Inr (admin_inactive, [admin_inactive])
   \<and> is_active admin_inactive = False"
  by (simp add: create_superuser_def create_user_def setdefault_def admin_extra_def
      admin_inactive_def admin_user_def normalize_email_def strip_def is_space_def
      lower_char_def Let_def)

end
